theory Spec2Isabelle
  imports Main "HOL-Library.Word"
begin

section \<open>Errors, panics and returned pointers\<close>

text \<open>
  Go error values, as far as the two packages build or inspect them.
  \<^item> \<open>ClientError nf m\<close>: an error handed back by the cluster API client; \<open>nf\<close> is
    what \<open>k8serrors.IsNotFound\<close> answers on it and \<open>m\<close> its message.
  \<^item> \<open>ErrorString m\<close>: an error whose message \<open>m\<close> is fully known
    (\<open>fmt.Errorf\<close> of a constant format with constant operands already substituted).
  \<^item> \<open>Errorf f\<close>: \<open>fmt.Errorf(f)\<close>, the string \<open>f\<close> used as the format, no operands.
  \<^item> \<open>Wrapf ctx e\<close>: \<open>fmt.Errorf(ctx + "%w", e)\<close>.
  \<^item> \<open>ErrWaitTimeout\<close>: the timeout error of the polling primitives.
\<close>

datatype error =
    ClientError bool string
  | ErrorString string
  | Errorf string
  | Wrapf string error
  | ErrWaitTimeout

fun IsNotFound :: "error \<Rightarrow> bool" where
  "IsNotFound (ClientError nf m) = nf"
| "IsNotFound (ErrorString m) = False"
| "IsNotFound (Errorf f) = False"
| "IsNotFound (Wrapf ctx e) = IsNotFound e"
| "IsNotFound ErrWaitTimeout = False"

text \<open>
  The message \<open>err.Error()\<close>. A format string without the character \<open>%\<close> is
  printed as it is. What \<open>fmt\<close> prints for a verb that has no operand is not
  modelled: there the result is \<open>None\<close>, which reads "left open", not "no message".
\<close>

fun Error :: "error \<Rightarrow> string option" where
  "Error (ClientError nf m) = Some m"
| "Error (ErrorString m) = Some m"
| "Error (Errorf f) = (if CHR ''%'' \<in> set f then None else Some f)"
| "Error (Wrapf ctx e) = map_option (\<lambda>m. ctx @ m) (Error e)"
| "Error ErrWaitTimeout = Some ''timed out waiting for the condition''"

text \<open>
  A call either returns a value or panics (nil dereference); both carry the state
  reached at that moment.
\<close>

datatype ('a, 's) outcome = Return 'a 's | Panic 's

fun final :: "('a, 's) outcome \<Rightarrow> 's" where
  "final (Return r s) = s"
| "final (Panic s) = s"

fun panicked :: "('a, 's) outcome \<Rightarrow> bool" where
  "panicked (Return r s) = False"
| "panicked (Panic s) = True"

text \<open>
  A returned \<open>*Builder\<close>: nil, the receiver itself, or some other builder (only an
  option function given to \<open>WithOptions\<close> can produce the last).
\<close>

datatype 'b ptr = NilPtr | Receiver | Other 'b

section \<open>The cluster API client\<close>

text \<open>
  \<open>clients.Settings\<close> is outside the two packages. The client is modelled by its
  replies: each reply may depend on every call made so far (the log) and on the
  arguments of the call, which covers any behaviour of the cluster that a sequential
  caller can observe. The log is the state of the world; a call appends to it.
  In-place updates that the server makes to an object passed to Create are not modelled.
\<close>

datatype 'o call = GetCall string string | CreateCall 'o | DeleteCall 'o

record 'o Settings =
  client_Get :: "'o call list \<Rightarrow> string \<Rightarrow> string \<Rightarrow> error + 'o"
  client_Create :: "'o call list \<Rightarrow> 'o \<Rightarrow> error option"
  client_Delete :: "'o call list \<Rightarrow> 'o \<Rightarrow> error option"

section \<open>Resources and builders\<close>

record ObjectMeta =
  Name :: string
  Namespace :: string

record ('sp, 'st) resource =
  ObjectMeta :: ObjectMeta
  Spec :: 'sp
  Status :: 'st

text \<open>
  Both packages declare the same four fields. Pointers are options; \<open>Definition\<close> and
  \<open>Object\<close> are held by value, so the sharing that \<open>builder.Object = builder.Definition\<close>
  sets up in Create is not tracked (no statement below reads \<open>Object\<close> after a later
  change of \<open>Definition\<close>).
\<close>

record 'o builder =
  Definition :: "'o option"
  Object :: "'o option"
  apiClient :: "'o Settings option"
  errorMsg :: string

subsection \<open>Bare-metal host: the fields the package touches\<close>

record BMCDetails =
  Address :: string
  CredentialsName :: string
  DisableCertificateVerification :: bool

record RootDeviceHints =
  DeviceName :: string
  HCTL :: string
  Model :: string
  Vendor :: string
  SerialNumber :: string
  MinSizeGigabytes :: int
  WWN :: string
  WWNWithExtension :: string
  WWNVendorExtension :: string
  Rotational :: "bool option"

record BareMetalHostSpec =
  BMC :: BMCDetails
  BootMode :: string
  BootMACAddress :: string
  Online :: bool
  ExternallyProvisioned :: bool
  RootDeviceHints :: "RootDeviceHints option"

datatype ProvisioningState =
    StateNone | StateProvisioned | StateProvisioning | StateReady | StateAvailable
  | StateOther string

record ProvisionStatus =
  State :: ProvisioningState

record BareMetalHostStatus =
  Provisioning :: ProvisionStatus

type_synonym BareMetalHost = "(BareMetalHostSpec, BareMetalHostStatus) resource"
type_synonym Builder = "BareMetalHost builder"
type_synonym bmh_state = "Builder \<times> BareMetalHost call list"

text \<open>The zero value \<open>&bmhv1alpha1.RootDeviceHints{}\<close>.\<close>

definition emptyRootDeviceHints :: RootDeviceHints where
  "emptyRootDeviceHints =
     \<lparr>DeviceName = '''', HCTL = '''', Model = '''', Vendor = '''', SerialNumber = '''',
      MinSizeGigabytes = 0, WWN = '''', WWNWithExtension = '''', WWNVendorExtension = '''',
      Rotational = None\<rparr>"

section \<open>Package bmh\<close>

text \<open>
  Logging calls are left out. \<open>Pull\<close> (and \<open>PullNodePool\<close> of the other package) is
  not used by any statement below and is not modelled.
\<close>

subsection \<open>NewBuilder\<close>

definition NewBuilder ::
  "BareMetalHost Settings option \<Rightarrow> string \<Rightarrow> string \<Rightarrow> string \<Rightarrow> string \<Rightarrow> string \<Rightarrow> string
     \<Rightarrow> Builder" where
  "NewBuilder client name nsname bmcAddress bmcSecretName bootMacAddress bootMode =
     (let builder =
            \<lparr>Definition = Some
               \<lparr>ObjectMeta = \<lparr>Name = name, Namespace = nsname\<rparr>,
                Spec = \<lparr>BMC = \<lparr>Address = bmcAddress, CredentialsName = bmcSecretName,
                               DisableCertificateVerification = True\<rparr>,
                        BootMode = bootMode,
                        BootMACAddress = bootMacAddress,
                        Online = True,
                        ExternallyProvisioned = False,
                        RootDeviceHints = None\<rparr>,
                Status = \<lparr>Provisioning = \<lparr>State = StateNone\<rparr>\<rparr>\<rparr>,
             Object = None, apiClient = client, errorMsg = ''''\<rparr>;
          builder = (if name = ''''
                     then builder\<lparr>errorMsg := ''BMH 'name' cannot be empty''\<rparr> else builder);
          builder = (if nsname = ''''
                     then builder\<lparr>errorMsg := ''BMH 'nsname' cannot be empty''\<rparr> else builder);
          builder = (if bmcAddress = ''''
                     then builder\<lparr>errorMsg := ''BMH 'bmcAddress' cannot be empty''\<rparr>
                     else builder);
          builder = (if bmcSecretName = ''''
                     then builder\<lparr>errorMsg := ''BMH 'bmcSecretName' cannot be empty''\<rparr>
                     else builder);
          builder = (if bootMode \<notin> set [''UEFI'', ''UEFISecureBoot'', ''legacy'']
                     then builder\<lparr>errorMsg := ''Not acceptable 'bootMode' value''\<rparr>
                     else builder);
          builder = (if bootMacAddress = ''''
                     then builder\<lparr>errorMsg := ''BMH 'bootMacAddress' cannot be empty''\<rparr>
                     else builder)
      in builder)"

subsection \<open>The root-device-hint mutators\<close>

text \<open>
  The ten \<open>WithRootDevice...\<close> methods have one body, which differs in the test made on
  the argument, the message stored when it fails, and the field assigned:
  \<^verbatim>\<open>
  if builder.Definition == nil { builder.errorMsg = msg.UndefinedCrdObjectErrString("BareMetalHost") }
  if <argument rejected>       { builder.errorMsg = "<message>" }
  if builder.errorMsg != ""    { return builder }
  if builder.Definition.Spec.RootDeviceHints == nil {
      builder.Definition.Spec.RootDeviceHints = &bmhv1alpha1.RootDeviceHints{} }
  builder.Definition.Spec.RootDeviceHints.<Field> = <argument>
  return builder
  \<close>
  \<open>msg.UndefinedCrdObjectErrString\<close> lives in a package that is not among the sources;
  it is the parameter \<open>undefinedCrd\<close> of every function that calls it. Should it
  return the empty string, the body goes on to dereference the nil \<open>Definition\<close>.
\<close>

definition setRootDeviceHint ::
  "string \<Rightarrow> bool \<Rightarrow> string \<Rightarrow> (RootDeviceHints \<Rightarrow> RootDeviceHints) \<Rightarrow> Builder
     \<Rightarrow> (Builder ptr, Builder) outcome" where
  "setRootDeviceHint undefinedMsg rejected rejectedMsg assign builder =
     (let b1 = (if Definition builder = None then builder\<lparr>errorMsg := undefinedMsg\<rparr>
                else builder);
          b2 = (if rejected then b1\<lparr>errorMsg := rejectedMsg\<rparr> else b1)
      in if errorMsg b2 \<noteq> '''' then Return Receiver b2
         else case Definition b2 of
                None \<Rightarrow> Panic b2
              | Some d \<Rightarrow>
                  let hints = (case RootDeviceHints (Spec d) of
                                 None \<Rightarrow> emptyRootDeviceHints | Some h \<Rightarrow> h)
                  in Return Receiver
                       (b2\<lparr>Definition :=
                             Some (d\<lparr>Spec := (Spec d)\<lparr>RootDeviceHints := Some (assign hints)\<rparr>\<rparr>)\<rparr>))"

definition WithRootDeviceDeviceName ::
  "(string \<Rightarrow> string) \<Rightarrow> string \<Rightarrow> Builder \<Rightarrow> (Builder ptr, Builder) outcome" where
  "WithRootDeviceDeviceName undefinedCrd deviceName =
     setRootDeviceHint (undefinedCrd ''BareMetalHost'') (deviceName = '''')
       ''the baremetalhost rootDeviceHint deviceName cannot be empty''
       (\<lambda>h. h\<lparr>DeviceName := deviceName\<rparr>)"

definition WithRootDeviceHTCL ::
  "(string \<Rightarrow> string) \<Rightarrow> string \<Rightarrow> Builder \<Rightarrow> (Builder ptr, Builder) outcome" where
  "WithRootDeviceHTCL undefinedCrd hctl =
     setRootDeviceHint (undefinedCrd ''BareMetalHost'') (hctl = '''')
       ''the baremetalhost rootDeviceHint hctl cannot be empty''
       (\<lambda>h. h\<lparr>HCTL := hctl\<rparr>)"

definition WithRootDeviceModel ::
  "(string \<Rightarrow> string) \<Rightarrow> string \<Rightarrow> Builder \<Rightarrow> (Builder ptr, Builder) outcome" where
  "WithRootDeviceModel undefinedCrd model =
     setRootDeviceHint (undefinedCrd ''BareMetalHost'') (model = '''')
       ''the baremetalhost rootDeviceHint model cannot be empty''
       (\<lambda>h. h\<lparr>Model := model\<rparr>)"

text \<open>The source assigns \<open>RootDeviceHints.Model = vendor\<close> here (line 196).\<close>

definition WithRootDeviceVendor ::
  "(string \<Rightarrow> string) \<Rightarrow> string \<Rightarrow> Builder \<Rightarrow> (Builder ptr, Builder) outcome" where
  "WithRootDeviceVendor undefinedCrd vendor =
     setRootDeviceHint (undefinedCrd ''BareMetalHost'') (vendor = '''')
       ''the baremetalhost rootDeviceHint vendor cannot be empty''
       (\<lambda>h. h\<lparr>Model := vendor\<rparr>)"

definition WithRootDeviceSerialNumber ::
  "(string \<Rightarrow> string) \<Rightarrow> string \<Rightarrow> Builder \<Rightarrow> (Builder ptr, Builder) outcome" where
  "WithRootDeviceSerialNumber undefinedCrd serialNumber =
     setRootDeviceHint (undefinedCrd ''BareMetalHost'') (serialNumber = '''')
       ''the baremetalhost rootDeviceHint serialNumber cannot be empty''
       (\<lambda>h. h\<lparr>SerialNumber := serialNumber\<rparr>)"

text \<open>\<open>size\<close> is a Go \<open>int\<close>; it is only compared with 0 and stored.\<close>

definition WithRootDeviceMinSizeGigabytes ::
  "(string \<Rightarrow> string) \<Rightarrow> int \<Rightarrow> Builder \<Rightarrow> (Builder ptr, Builder) outcome" where
  "WithRootDeviceMinSizeGigabytes undefinedCrd size' =
     setRootDeviceHint (undefinedCrd ''BareMetalHost'') (size' < 0)
       ''the baremetalhost rootDeviceHint size cannot be less than 0''
       (\<lambda>h. h\<lparr>MinSizeGigabytes := size'\<rparr>)"

definition WithRootDeviceWWN ::
  "(string \<Rightarrow> string) \<Rightarrow> string \<Rightarrow> Builder \<Rightarrow> (Builder ptr, Builder) outcome" where
  "WithRootDeviceWWN undefinedCrd wwn =
     setRootDeviceHint (undefinedCrd ''BareMetalHost'') (wwn = '''')
       ''the baremetalhost rootDeviceHint wwn cannot be empty''
       (\<lambda>h. h\<lparr>WWN := wwn\<rparr>)"

definition WithRootDeviceWWNWithExtension ::
  "(string \<Rightarrow> string) \<Rightarrow> string \<Rightarrow> Builder \<Rightarrow> (Builder ptr, Builder) outcome" where
  "WithRootDeviceWWNWithExtension undefinedCrd wwnWithExtension =
     setRootDeviceHint (undefinedCrd ''BareMetalHost'') (wwnWithExtension = '''')
       ''the baremetalhost rootDeviceHint wwnWithExtension cannot be empty''
       (\<lambda>h. h\<lparr>WWNWithExtension := wwnWithExtension\<rparr>)"

definition WithRootDeviceWWNVendorExtension ::
  "(string \<Rightarrow> string) \<Rightarrow> string \<Rightarrow> Builder \<Rightarrow> (Builder ptr, Builder) outcome" where
  "WithRootDeviceWWNVendorExtension undefinedCrd wwnVendorExtension =
     setRootDeviceHint (undefinedCrd ''BareMetalHost'') (wwnVendorExtension = '''')
       ''the baremetalhost rootDeviceHint wwnVendorExtension cannot be empty''
       (\<lambda>h. h\<lparr>WWNVendorExtension := wwnVendorExtension\<rparr>)"

definition WithRootDeviceRotationalDisk ::
  "(string \<Rightarrow> string) \<Rightarrow> bool \<Rightarrow> Builder \<Rightarrow> (Builder ptr, Builder) outcome" where
  "WithRootDeviceRotationalDisk undefinedCrd rotational =
     setRootDeviceHint (undefinedCrd ''BareMetalHost'') False []
       (\<lambda>h. h\<lparr>Rotational := Some rotational\<rparr>)"

subsection \<open>WithOptions\<close>

text \<open>
  An option is a caller-supplied Go function \<open>func(*Builder) (*Builder, error)\<close>. It
  may change the receiver and the cluster, may panic, and returns a pointer and an
  error; of the error, \<open>WithOptions\<close> reads only \<open>err.Error()\<close>, so the error is
  represented by that message. A nil function value is \<open>None\<close>.

  Inside the loop \<open>builder, err := option(builder)\<close> declares a new \<open>builder\<close>: when
  \<open>err\<close> is nil the returned pointer is dropped and the loop goes on with the receiver;
  when it is not, the message is stored in the returned builder and that pointer is
  returned (a nil dereference if it is nil).
\<close>

type_synonym AdditionalOptions =
  "bmh_state \<Rightarrow> (Builder ptr \<times> string option, bmh_state) outcome"

fun WithOptions_loop ::
  "AdditionalOptions option list \<Rightarrow> bmh_state \<Rightarrow> (Builder ptr, bmh_state) outcome" where
  "WithOptions_loop [] s = Return Receiver s"
| "WithOptions_loop (None # options) s = WithOptions_loop options s"
| "WithOptions_loop (Some option # options) s =
     (case option s of
        Panic s' \<Rightarrow> Panic s'
      | Return (p, None) s' \<Rightarrow> WithOptions_loop options s'
      | Return (NilPtr, Some m) s' \<Rightarrow> Panic s'
      | Return (Receiver, Some m) (b', log') \<Rightarrow> Return Receiver (b'\<lparr>errorMsg := m\<rparr>, log')
      | Return (Other b2, Some m) s' \<Rightarrow> Return (Other (b2\<lparr>errorMsg := m\<rparr>)) s')"

definition WithOptions ::
  "(string \<Rightarrow> string) \<Rightarrow> AdditionalOptions option list \<Rightarrow> bmh_state
     \<Rightarrow> (Builder ptr, bmh_state) outcome" where
  "WithOptions undefinedCrd options s =
     (case s of (builder, log) \<Rightarrow>
        let b1 = (if Definition builder = None
                  then builder\<lparr>errorMsg := undefinedCrd ''bmh''\<rparr> else builder)
        in if errorMsg b1 \<noteq> '''' then Return Receiver (b1, log)
           else WithOptions_loop options (b1, log))"

subsection \<open>Get, Exists, Create, Delete\<close>

text \<open>
  \<open>Get\<close> dereferences \<open>builder.apiClient\<close> and \<open>builder.Definition\<close> without a check.
\<close>

definition Builder_Get ::
  "bmh_state \<Rightarrow> (error + BareMetalHost, bmh_state) outcome" where
  "Builder_Get s =
     (case s of (builder, log) \<Rightarrow>
        (case (apiClient builder, Definition builder) of
           (Some c, Some d) \<Rightarrow>
              Return (client_Get c log (Name (ObjectMeta d)) (Namespace (ObjectMeta d)))
                     (builder, log @ [GetCall (Name (ObjectMeta d)) (Namespace (ObjectMeta d))])
         | _ \<Rightarrow> Panic s))"

text \<open>The object that \<open>builder.Object, err = builder.Get()\<close> stores: nil on an error.\<close>

fun fetched :: "error + 'o \<Rightarrow> 'o option" where
  "fetched (Inl e) = None"
| "fetched (Inr obj) = Some obj"

text \<open>\<open>err == nil || !k8serrors.IsNotFound(err)\<close>\<close>

fun present :: "error + 'o \<Rightarrow> bool" where
  "present (Inl e) = (\<not> IsNotFound e)"
| "present (Inr obj) = True"

definition Builder_Exists :: "bmh_state \<Rightarrow> (bool, bmh_state) outcome" where
  "Builder_Exists s =
     (case Builder_Get s of
        Panic s' \<Rightarrow> Panic s'
      | Return r (builder, log) \<Rightarrow> Return (present r) (builder\<lparr>Object := fetched r\<rparr>, log))"

definition Builder_Create :: "bmh_state \<Rightarrow> (Builder ptr \<times> error option, bmh_state) outcome" where
  "Builder_Create s =
     (case s of (builder, log) \<Rightarrow>
        if errorMsg builder \<noteq> '''' then Return (NilPtr, Some (Errorf (errorMsg builder))) s
        else (case Builder_Exists s of
                Panic s' \<Rightarrow> Panic s'
              | Return True s' \<Rightarrow> Return (Receiver, None) s'
              | Return False (b1, log1) \<Rightarrow>
                  (case (apiClient b1, Definition b1) of
                     (Some c, Some d) \<Rightarrow>
                       (case client_Create c log1 d of
                          None \<Rightarrow> Return (Receiver, None)
                                    (b1\<lparr>Object := Definition b1\<rparr>, log1 @ [CreateCall d])
                        | Some e \<Rightarrow> Return (Receiver, Some e) (b1, log1 @ [CreateCall d]))
                   | _ \<Rightarrow> Panic (b1, log1))))"

definition Builder_Delete :: "bmh_state \<Rightarrow> (Builder ptr \<times> error option, bmh_state) outcome" where
  "Builder_Delete s =
     (case Builder_Exists s of
        Panic s' \<Rightarrow> Panic s'
      | Return False s' \<Rightarrow>
          Return (Receiver,
                  Some (Errorf ''bmh cannot be deleted because it does not exist'')) s'
      | Return True (b1, log1) \<Rightarrow>
          (case (apiClient b1, Definition b1) of
             (Some c, Some d) \<Rightarrow>
               (case client_Delete c log1 d of
                  Some e \<Rightarrow> Return (Receiver, Some (Wrapf ''can not delete bmh: '' e))
                              (b1, log1 @ [DeleteCall d])
                | None \<Rightarrow> Return (Receiver, None) (b1\<lparr>Object := None\<rparr>, log1 @ [DeleteCall d]))
           | _ \<Rightarrow> Panic (b1, log1)))"

section \<open>Polling\<close>

text \<open>
  Modelled from the spec: \<open>wait.PollImmediate\<close> and \<open>wait.Poll\<close> belong to
  \<open>k8s.io/apimachinery\<close>, which is not among the sources. Following section 4.2 of the
  specification, the condition is evaluated once per poll interval; an evaluation that
  returns an error ends the wait with that error, one that returns true ends it with
  success, one that returns false lets the wait go on, and when the timeout has elapsed
  the wait ends with the timeout error. A panic of the condition ends the wait.

  Time is idealised: an evaluation takes no time, \<open>PollImmediate\<close> evaluates at the
  elapsed times \<open>0, interval, 2 * interval, ...\<close> and \<open>Poll\<close> at
  \<open>interval, 2 * interval, ...\<close>, in both cases as long as the elapsed time does not
  exceed the timeout. \<open>time.Duration\<close> is a number of nanoseconds.
\<close>

type_synonym Duration = int

definition Second :: Duration where
  "Second = 1000000000"

definition ticks :: "Duration \<Rightarrow> Duration \<Rightarrow> nat" where
  "ticks interval timeout = nat (timeout div interval)"

fun poll ::
  "nat \<Rightarrow> ('s \<Rightarrow> (bool \<times> error option, 's) outcome) \<Rightarrow> 's \<Rightarrow> (error option, 's) outcome" where
  "poll 0 condition s = Return (Some ErrWaitTimeout) s"
| "poll (Suc n) condition s =
     (case condition s of
        Panic s' \<Rightarrow> Panic s'
      | Return (done, Some e) s' \<Rightarrow> Return (Some e) s'
      | Return (True, None) s' \<Rightarrow> Return None s'
      | Return (False, None) s' \<Rightarrow> poll n condition s')"

definition PollImmediate ::
  "Duration \<Rightarrow> Duration \<Rightarrow> ('s \<Rightarrow> (bool \<times> error option, 's) outcome) \<Rightarrow> 's
     \<Rightarrow> (error option, 's) outcome" where
  "PollImmediate interval timeout condition s = poll (Suc (ticks interval timeout)) condition s"

definition Poll ::
  "Duration \<Rightarrow> Duration \<Rightarrow> ('s \<Rightarrow> (bool \<times> error option, 's) outcome) \<Rightarrow> 's
     \<Rightarrow> (error option, 's) outcome" where
  "Poll interval timeout condition s = poll (ticks interval timeout) condition s"

subsection \<open>The waits of package bmh\<close>

text \<open>The function literal handed to \<open>wait.PollImmediate\<close> in \<open>WaitUntilInStatus\<close>.\<close>

definition WaitUntilInStatus_condition ::
  "ProvisioningState \<Rightarrow> bmh_state \<Rightarrow> (bool \<times> error option, bmh_state) outcome" where
  "WaitUntilInStatus_condition status s =
     (case Builder_Get s of
        Panic s' \<Rightarrow> Panic s'
      | Return (Inl e) (builder, log) \<Rightarrow> Return (False, None) (builder\<lparr>Object := None\<rparr>, log)
      | Return (Inr obj) (builder, log) \<Rightarrow>
          Return (State (Provisioning (Status obj)) = status, None)
                 (builder\<lparr>Object := Some obj\<rparr>, log))"

definition WaitUntilInStatus ::
  "ProvisioningState \<Rightarrow> Duration \<Rightarrow> bmh_state \<Rightarrow> (error option, bmh_state) outcome" where
  "WaitUntilInStatus status timeout s =
     (if errorMsg (fst s) \<noteq> '''' then Return (Some (Errorf (errorMsg (fst s)))) s
      else PollImmediate Second timeout (WaitUntilInStatus_condition status) s)"

definition WaitUntilProvisioned :: "Duration \<Rightarrow> bmh_state \<Rightarrow> (error option, bmh_state) outcome" where
  "WaitUntilProvisioned timeout = WaitUntilInStatus StateProvisioned timeout"

definition WaitUntilProvisioning :: "Duration \<Rightarrow> bmh_state \<Rightarrow> (error option, bmh_state) outcome" where
  "WaitUntilProvisioning timeout = WaitUntilInStatus StateProvisioning timeout"

definition WaitUntilReady :: "Duration \<Rightarrow> bmh_state \<Rightarrow> (error option, bmh_state) outcome" where
  "WaitUntilReady timeout = WaitUntilInStatus StateReady timeout"

definition WaitUntilAvailable :: "Duration \<Rightarrow> bmh_state \<Rightarrow> (error option, bmh_state) outcome" where
  "WaitUntilAvailable timeout = WaitUntilInStatus StateAvailable timeout"

text \<open>
  \<open>Create\<close> returns nil or the receiver; the receiver is what the wait is then called on.
\<close>

definition CreateAndWaitUntilProvisioned ::
  "Duration \<Rightarrow> bmh_state \<Rightarrow> (Builder ptr \<times> error option, bmh_state) outcome" where
  "CreateAndWaitUntilProvisioned timeout s =
     (case Builder_Create s of
        Panic s' \<Rightarrow> Panic s'
      | Return (p, Some e) s' \<Rightarrow> Return (NilPtr, Some e) s'
      | Return (NilPtr, None) s' \<Rightarrow> Panic s'
      | Return (Other b, None) s' \<Rightarrow> Panic s'
      | Return (Receiver, None) s' \<Rightarrow>
          (case WaitUntilProvisioned timeout s' of
             Panic s'' \<Rightarrow> Panic s''
           | Return err s'' \<Rightarrow> Return (Receiver, err) s''))"

text \<open>The function literal handed to \<open>wait.Poll\<close> in \<open>WaitUntilDeleted\<close>.\<close>

definition WaitUntilDeleted_condition ::
  "bmh_state \<Rightarrow> (bool \<times> error option, bmh_state) outcome" where
  "WaitUntilDeleted_condition s =
     (case Builder_Get s of
        Panic s' \<Rightarrow> Panic s'
      | Return (Inr obj) s' \<Rightarrow> Return (False, None) s'
      | Return (Inl e) s' \<Rightarrow>
          if IsNotFound e then Return (True, None) s' else Return (False, Some e) s')"

definition WaitUntilDeleted :: "Duration \<Rightarrow> bmh_state \<Rightarrow> (error option, bmh_state) outcome" where
  "WaitUntilDeleted timeout s = Poll Second timeout WaitUntilDeleted_condition s"

text \<open>
  \<open>Delete\<close> always returns the receiver; after a successful \<open>Delete\<close> the method ends
  with \<open>return nil, err\<close>.
\<close>

definition DeleteAndWaitUntilDeleted ::
  "Duration \<Rightarrow> bmh_state \<Rightarrow> (Builder ptr \<times> error option, bmh_state) outcome" where
  "DeleteAndWaitUntilDeleted timeout s =
     (case Builder_Delete s of
        Panic s' \<Rightarrow> Panic s'
      | Return (p, Some e) s' \<Rightarrow> Return (p, Some e) s'
      | Return (NilPtr, None) s' \<Rightarrow> Panic s'
      | Return (Other b, None) s' \<Rightarrow> Panic s'
      | Return (Receiver, None) s' \<Rightarrow>
          (case WaitUntilDeleted timeout s' of
             Panic s'' \<Rightarrow> Panic s''
           | Return err s'' \<Rightarrow> Return (NilPtr, err) s''))"

section \<open>Package hypershift\<close>

subsection \<open>Node pool: the fields the package touches\<close>

datatype PlatformType = AgentPlatform | OtherPlatform string

record NodePoolPlatform =
  Type :: PlatformType

text \<open>
  \<open>NewNodePoolBuilder\<close> stores an \<open>int32\<close> in \<open>Spec.Replicas\<close> and \<open>WithReplicas\<close> a
  \<open>*int32\<close>; the field is an optional 32-bit word, which holds both.
  \<open>StatusReplicas\<close> is \<open>Status.Replicas\<close>.
\<close>

record NodePoolSpec =
  ClusterName :: string
  Release :: string
  Replicas :: "32 word option"
  Platform :: NodePoolPlatform

record NodePoolStatus =
  StatusReplicas :: "32 word"

type_synonym NodePool = "(NodePoolSpec, NodePoolStatus) resource"
type_synonym NodePoolBuilder = "NodePool builder"

text \<open>
  \<open>validate\<close> tests \<open>builder == nil\<close>, so the receiver of the methods of this package
  is an optional builder.
\<close>

type_synonym np_state = "NodePoolBuilder option \<times> NodePool call list"

subsection \<open>NewNodePoolBuilder\<close>

definition NewNodePoolBuilder ::
  "NodePool Settings option \<Rightarrow> string \<Rightarrow> string \<Rightarrow> string \<Rightarrow> string \<Rightarrow> string \<Rightarrow> 32 word
     \<Rightarrow> NodePoolBuilder" where
  "NewNodePoolBuilder client name nsname clusterName agentNamespace release replicas =
     (let builder =
            \<lparr>Definition = Some
               \<lparr>ObjectMeta = \<lparr>Name = name, Namespace = nsname\<rparr>,
                Spec = \<lparr>ClusterName = clusterName,
                        Release = release,
                        Replicas = Some replicas,
                        Platform = \<lparr>Type = AgentPlatform\<rparr>\<rparr>,
                Status = \<lparr>StatusReplicas = 0\<rparr>\<rparr>,
             Object = None, apiClient = client, errorMsg = ''''\<rparr>;
          builder = (if name = ''''
                     then builder\<lparr>errorMsg := ''nodepool 'name' cannot be empty''\<rparr>
                     else builder);
          builder = (if nsname = ''''
                     then builder\<lparr>errorMsg := ''nodepool 'namespace' cannot be empty''\<rparr>
                     else builder);
          builder = (if clusterName = ''''
                     then builder\<lparr>errorMsg := ''nodepool 'clusterName' cannot be empty''\<rparr>
                     else builder);
          builder = (if release = ''''
                     then builder\<lparr>errorMsg := ''nodepool 'release' cannot be empty''\<rparr>
                     else builder)
      in builder)"

subsection \<open>validate\<close>

text \<open>
  \<open>validate\<close> returns \<open>(false, err)\<close> with a non-nil error or \<open>(true, nil)\<close>; the pair is
  represented by the optional error. \<open>msg.UndefinedCrdObjectErrString\<close> is again the
  parameter \<open>undefinedCrd\<close>.
\<close>

definition validate ::
  "(string \<Rightarrow> string) \<Rightarrow> NodePoolBuilder option \<Rightarrow> error option \<times> NodePoolBuilder option" where
  "validate undefinedCrd receiver =
     (case receiver of
        None \<Rightarrow> (Some (ErrorString ''error: received nil NodePool builder''), None)
      | Some builder \<Rightarrow>
          let b1 = (if Definition builder = None
                    then builder\<lparr>errorMsg := undefinedCrd ''NodePool''\<rparr> else builder);
              b2 = (if apiClient b1 = None
                    then b1\<lparr>errorMsg := ''NodePool builder cannot have nil apiClient''\<rparr>
                    else b1)
          in if errorMsg b2 \<noteq> '''' then (Some (Errorf (errorMsg b2)), Some b2)
             else (None, Some b2))"

text \<open>The pointer \<open>builder\<close> as a return value: nil when the receiver is nil.\<close>

fun self :: "'b option \<Rightarrow> 'b ptr" where
  "self None = NilPtr"
| "self (Some b) = Receiver"

subsection \<open>WithReplicas, Get, Exists, WaitForReplicas\<close>

definition WithReplicas ::
  "(string \<Rightarrow> string) \<Rightarrow> 32 word option \<Rightarrow> NodePoolBuilder option
     \<Rightarrow> (NodePoolBuilder ptr, NodePoolBuilder option) outcome" where
  "WithReplicas undefinedCrd replicas receiver =
     (case validate undefinedCrd receiver of
        (Some e, r1) \<Rightarrow> Return (self r1) r1
      | (None, None) \<Rightarrow> Panic None
      | (None, Some b) \<Rightarrow>
          (case Definition b of
             None \<Rightarrow> Panic (Some b)
           | Some d \<Rightarrow>
               Return Receiver
                 (Some (b\<lparr>Definition := Some (d\<lparr>Spec := (Spec d)\<lparr>Replicas := replicas\<rparr>\<rparr>)\<rparr>))))"

definition NodePoolBuilder_Get ::
  "(string \<Rightarrow> string) \<Rightarrow> np_state \<Rightarrow> (error + NodePool, np_state) outcome" where
  "NodePoolBuilder_Get undefinedCrd s =
     (case s of (receiver, log) \<Rightarrow>
        (case validate undefinedCrd receiver of
           (Some e, r1) \<Rightarrow> Return (Inl e) (r1, log)
         | (None, None) \<Rightarrow> Panic (None, log)
         | (None, Some b) \<Rightarrow>
             (case (apiClient b, Definition b) of
                (Some c, Some d) \<Rightarrow>
                  Return (client_Get c log (Name (ObjectMeta d)) (Namespace (ObjectMeta d)))
                         (Some b,
                          log @ [GetCall (Name (ObjectMeta d)) (Namespace (ObjectMeta d))])
              | _ \<Rightarrow> Panic (Some b, log))))"

text \<open>\<open>builder.Object, err = builder.Get()\<close>: the call, then the store into the receiver.\<close>

definition NodePoolBuilder_fetch ::
  "(string \<Rightarrow> string) \<Rightarrow> np_state \<Rightarrow> (error + NodePool, np_state) outcome" where
  "NodePoolBuilder_fetch undefinedCrd s =
     (case NodePoolBuilder_Get undefinedCrd s of
        Panic s' \<Rightarrow> Panic s'
      | Return r (None, log) \<Rightarrow> Panic (None, log)
      | Return r (Some b, log) \<Rightarrow> Return r (Some (b\<lparr>Object := fetched r\<rparr>), log))"

definition NodePoolBuilder_Exists ::
  "(string \<Rightarrow> string) \<Rightarrow> np_state \<Rightarrow> (bool, np_state) outcome" where
  "NodePoolBuilder_Exists undefinedCrd s =
     (case s of (receiver, log) \<Rightarrow>
        (case validate undefinedCrd receiver of
           (Some e, r1) \<Rightarrow> Return False (r1, log)
         | (None, r1) \<Rightarrow>
             (case NodePoolBuilder_fetch undefinedCrd (r1, log) of
                Panic s' \<Rightarrow> Panic s'
              | Return r s' \<Rightarrow> Return (present r) s')))"

text \<open>The function literal handed to \<open>wait.PollImmediate\<close> in \<open>WaitForReplicas\<close>.\<close>

definition WaitForReplicas_condition ::
  "(string \<Rightarrow> string) \<Rightarrow> 32 word \<Rightarrow> np_state \<Rightarrow> (bool \<times> error option, np_state) outcome" where
  "WaitForReplicas_condition undefinedCrd replicas s =
     (case NodePoolBuilder_fetch undefinedCrd s of
        Panic s' \<Rightarrow> Panic s'
      | Return (Inl e) s' \<Rightarrow> Return (False, None) s'
      | Return (Inr obj) s' \<Rightarrow> Return (StatusReplicas (Status obj) = replicas, None) s')"

definition WaitForReplicas ::
  "(string \<Rightarrow> string) \<Rightarrow> 32 word \<Rightarrow> Duration \<Rightarrow> np_state
     \<Rightarrow> (NodePoolBuilder ptr \<times> error option, np_state) outcome" where
  "WaitForReplicas undefinedCrd replicas timeout s =
     (case s of (receiver, log) \<Rightarrow>
        (case validate undefinedCrd receiver of
           (Some e, r1) \<Rightarrow> Return (self r1, Some e) (r1, log)
         | (None, r1) \<Rightarrow>
             (case PollImmediate Second timeout
                     (WaitForReplicas_condition undefinedCrd replicas) (r1, log) of
                Panic s' \<Rightarrow> Panic s'
              | Return None s' \<Rightarrow> Return (self (fst s'), None) s'
              | Return (Some e) s' \<Rightarrow> Return (NilPtr, Some e) s')))"

section \<open>Sequences of calls on one builder\<close>

datatype BuilderOp =
    OpWithRootDeviceDeviceName string
  | OpWithRootDeviceHTCL string
  | OpWithRootDeviceModel string
  | OpWithRootDeviceVendor string
  | OpWithRootDeviceSerialNumber string
  | OpWithRootDeviceMinSizeGigabytes int
  | OpWithRootDeviceWWN string
  | OpWithRootDeviceWWNWithExtension string
  | OpWithRootDeviceWWNVendorExtension string
  | OpWithRootDeviceRotationalDisk bool
  | OpWithOptions "AdditionalOptions option list"
  | OpCreate
  | OpDelete
  | OpExists
  | OpGet
  | OpCreateAndWaitUntilProvisioned Duration
  | OpWaitUntilProvisioned Duration
  | OpWaitUntilProvisioning Duration
  | OpWaitUntilReady Duration
  | OpWaitUntilAvailable Duration
  | OpWaitUntilInStatus ProvisioningState Duration
  | OpDeleteAndWaitUntilDeleted Duration
  | OpWaitUntilDeleted Duration

text \<open>What a call leaves behind: whether it panicked, and the state it reached.\<close>

definition effect :: "('a, 's) outcome \<Rightarrow> bool \<times> 's" where
  "effect r = (panicked r, final r)"

fun mutate ::
  "(Builder \<Rightarrow> (Builder ptr, Builder) outcome) \<Rightarrow> bmh_state \<Rightarrow> bool \<times> bmh_state" where
  "mutate f (builder, log) = (panicked (f builder), (final (f builder), log))"

fun Builder_exec :: "(string \<Rightarrow> string) \<Rightarrow> BuilderOp \<Rightarrow> bmh_state \<Rightarrow> bool \<times> bmh_state" where
  "Builder_exec u (OpWithRootDeviceDeviceName v) s = mutate (WithRootDeviceDeviceName u v) s"
| "Builder_exec u (OpWithRootDeviceHTCL v) s = mutate (WithRootDeviceHTCL u v) s"
| "Builder_exec u (OpWithRootDeviceModel v) s = mutate (WithRootDeviceModel u v) s"
| "Builder_exec u (OpWithRootDeviceVendor v) s = mutate (WithRootDeviceVendor u v) s"
| "Builder_exec u (OpWithRootDeviceSerialNumber v) s = mutate (WithRootDeviceSerialNumber u v) s"
| "Builder_exec u (OpWithRootDeviceMinSizeGigabytes n) s =
     mutate (WithRootDeviceMinSizeGigabytes u n) s"
| "Builder_exec u (OpWithRootDeviceWWN v) s = mutate (WithRootDeviceWWN u v) s"
| "Builder_exec u (OpWithRootDeviceWWNWithExtension v) s =
     mutate (WithRootDeviceWWNWithExtension u v) s"
| "Builder_exec u (OpWithRootDeviceWWNVendorExtension v) s =
     mutate (WithRootDeviceWWNVendorExtension u v) s"
| "Builder_exec u (OpWithRootDeviceRotationalDisk r) s =
     mutate (WithRootDeviceRotationalDisk u r) s"
| "Builder_exec u (OpWithOptions options) s = effect (WithOptions u options s)"
| "Builder_exec u OpCreate s = effect (Builder_Create s)"
| "Builder_exec u OpDelete s = effect (Builder_Delete s)"
| "Builder_exec u OpExists s = effect (Builder_Exists s)"
| "Builder_exec u OpGet s = effect (Builder_Get s)"
| "Builder_exec u (OpCreateAndWaitUntilProvisioned t) s =
     effect (CreateAndWaitUntilProvisioned t s)"
| "Builder_exec u (OpWaitUntilProvisioned t) s = effect (WaitUntilProvisioned t s)"
| "Builder_exec u (OpWaitUntilProvisioning t) s = effect (WaitUntilProvisioning t s)"
| "Builder_exec u (OpWaitUntilReady t) s = effect (WaitUntilReady t s)"
| "Builder_exec u (OpWaitUntilAvailable t) s = effect (WaitUntilAvailable t s)"
| "Builder_exec u (OpWaitUntilInStatus st t) s = effect (WaitUntilInStatus st t s)"
| "Builder_exec u (OpDeleteAndWaitUntilDeleted t) s = effect (DeleteAndWaitUntilDeleted t s)"
| "Builder_exec u (OpWaitUntilDeleted t) s = effect (WaitUntilDeleted t s)"

text \<open>A sequence of calls stops at the first panic.\<close>

fun Builder_run :: "(string \<Rightarrow> string) \<Rightarrow> BuilderOp list \<Rightarrow> bmh_state \<Rightarrow> bmh_state" where
  "Builder_run u [] s = s"
| "Builder_run u (op # ops) s =
     (case Builder_exec u op s of
        (True, s') \<Rightarrow> s'
      | (False, s') \<Rightarrow> Builder_run u ops s')"

datatype NodePoolOp =
    OpWithReplicas "32 word option"
  | OpNodePoolGet
  | OpNodePoolExists
  | OpWaitForReplicas "32 word" Duration
  | OpValidate

fun NodePoolBuilder_exec ::
  "(string \<Rightarrow> string) \<Rightarrow> NodePoolOp \<Rightarrow> np_state \<Rightarrow> bool \<times> np_state" where
  "NodePoolBuilder_exec u (OpWithReplicas r) (receiver, log) =
     (panicked (WithReplicas u r receiver), (final (WithReplicas u r receiver), log))"
| "NodePoolBuilder_exec u OpNodePoolGet s = effect (NodePoolBuilder_Get u s)"
| "NodePoolBuilder_exec u OpNodePoolExists s = effect (NodePoolBuilder_Exists u s)"
| "NodePoolBuilder_exec u (OpWaitForReplicas r t) s = effect (WaitForReplicas u r t s)"
| "NodePoolBuilder_exec u OpValidate (receiver, log) =
     (False, (snd (validate u receiver), log))"

fun NodePoolBuilder_run ::
  "(string \<Rightarrow> string) \<Rightarrow> NodePoolOp list \<Rightarrow> np_state \<Rightarrow> np_state" where
  "NodePoolBuilder_run u [] s = s"
| "NodePoolBuilder_run u (op # ops) s =
     (case NodePoolBuilder_exec u op s of
        (True, s') \<Rightarrow> s'
      | (False, s') \<Rightarrow> NodePoolBuilder_run u ops s')"

section \<open>Example clusters and builders\<close>

text \<open>
  Concrete inputs on which the statements below are checked. \<open>scripted replies rest\<close>
  answers the n-th Get with the n-th element of \<open>replies\<close> and every later one with
  \<open>rest\<close>; Create and Delete always answer \<open>created\<close> and \<open>deleted\<close>.
\<close>

fun isGetCall :: "'o call \<Rightarrow> bool" where
  "isGetCall (GetCall name nsname) = True"
| "isGetCall (CreateCall obj) = False"
| "isGetCall (DeleteCall obj) = False"

definition scripted ::
  "(error + 'o) list \<Rightarrow> (error + 'o) \<Rightarrow> error option \<Rightarrow> error option \<Rightarrow> 'o Settings" where
  "scripted replies rest created deleted =
     \<lparr>client_Get = (\<lambda>log name nsname.
                      let n = length (filter isGetCall log)
                      in if n < length replies then replies ! n else rest),
      client_Create = (\<lambda>log obj. created),
      client_Delete = (\<lambda>log obj. deleted)\<rparr>"

definition notFound :: error where
  "notFound = ClientError True ''not found''"

definition unavailable :: error where
  "unavailable = ClientError False ''service unavailable''"

definition host :: "ProvisioningState \<Rightarrow> BareMetalHost" where
  "host st =
     \<lparr>ObjectMeta = \<lparr>Name = ''host0'', Namespace = ''ns0''\<rparr>,
      Spec = \<lparr>BMC = \<lparr>Address = ''addr'', CredentialsName = ''secret'',
                     DisableCertificateVerification = True\<rparr>,
              BootMode = ''UEFI'', BootMACAddress = ''mac'', Online = True,
              ExternallyProvisioned = False, RootDeviceHints = None\<rparr>,
      Status = \<lparr>Provisioning = \<lparr>State = st\<rparr>\<rparr>\<rparr>"

definition pool :: "32 word \<Rightarrow> NodePool" where
  "pool n =
     \<lparr>ObjectMeta = \<lparr>Name = ''pool0'', Namespace = ''ns0''\<rparr>,
      Spec = \<lparr>ClusterName = ''cluster0'', Release = ''release0'', Replicas = Some 3,
              Platform = \<lparr>Type = AgentPlatform\<rparr>\<rparr>,
      Status = \<lparr>StatusReplicas = n\<rparr>\<rparr>"

definition hostBuilder :: "BareMetalHost Settings \<Rightarrow> Builder" where
  "hostBuilder c = NewBuilder (Some c) ''host0'' ''ns0'' ''addr'' ''secret'' ''mac'' ''UEFI''"

definition poolBuilder :: "NodePool Settings \<Rightarrow> NodePoolBuilder" where
  "poolBuilder c = NewNodePoolBuilder (Some c) ''pool0'' ''ns0'' ''cluster0'' ''agents'' ''release0'' 3"

definition undefinedCrdText :: "string \<Rightarrow> string" where
  "undefinedCrdText crdName = ''undefined '' @ crdName"

section \<open>Vocabulary of the statements\<close>

text \<open>
  The checks of the two constructors in the order of the source, each with the message
  it stores, and the reading "the error state holds the message of the last failing
  check" (the empty string when no check fails).
\<close>

definition NewBuilder_checks ::
  "string \<Rightarrow> string \<Rightarrow> string \<Rightarrow> string \<Rightarrow> string \<Rightarrow> string \<Rightarrow> (bool \<times> string) list" where
  "NewBuilder_checks name nsname bmcAddress bmcSecretName bootMacAddress bootMode =
     [(name = '''', ''BMH 'name' cannot be empty''),
      (nsname = '''', ''BMH 'nsname' cannot be empty''),
      (bmcAddress = '''', ''BMH 'bmcAddress' cannot be empty''),
      (bmcSecretName = '''', ''BMH 'bmcSecretName' cannot be empty''),
      (bootMode \<notin> set [''UEFI'', ''UEFISecureBoot'', ''legacy''],
       ''Not acceptable 'bootMode' value''),
      (bootMacAddress = '''', ''BMH 'bootMacAddress' cannot be empty'')]"

definition NewNodePoolBuilder_checks ::
  "string \<Rightarrow> string \<Rightarrow> string \<Rightarrow> string \<Rightarrow> (bool \<times> string) list" where
  "NewNodePoolBuilder_checks name nsname clusterName release =
     [(name = '''', ''nodepool 'name' cannot be empty''),
      (nsname = '''', ''nodepool 'namespace' cannot be empty''),
      (clusterName = '''', ''nodepool 'clusterName' cannot be empty''),
      (release = '''', ''nodepool 'release' cannot be empty'')]"

definition lastFailing :: "(bool \<times> string) list \<Rightarrow> string" where
  "lastFailing checks =
     (case filter fst checks of [] \<Rightarrow> '''' | failing \<Rightarrow> snd (last failing))"

text \<open>The fetch a builder with definition \<open>d\<close> makes, and the reply of client \<open>c\<close> to it.\<close>

abbreviation fetchCall :: "('sp, 'st) resource \<Rightarrow> ('sp, 'st) resource call" where
  "fetchCall d \<equiv> GetCall (Name (ObjectMeta d)) (Namespace (ObjectMeta d))"

abbreviation fetchReply ::
  "('sp, 'st) resource Settings \<Rightarrow> ('sp, 'st) resource call list \<Rightarrow> ('sp, 'st) resource
     \<Rightarrow> error + ('sp, 'st) resource" where
  "fetchReply c log d \<equiv> client_Get c log (Name (ObjectMeta d)) (Namespace (ObjectMeta d))"

text \<open>
  What the two status conditions test on a fetch result: a failed fetch never counts.
\<close>

fun inState :: "ProvisioningState \<Rightarrow> error + BareMetalHost \<Rightarrow> bool" where
  "inState status (Inl e) = False"
| "inState status (Inr obj) = (State (Provisioning (Status obj)) = status)"

fun hasReplicas :: "32 word \<Rightarrow> error + NodePool \<Rightarrow> bool" where
  "hasReplicas replicas (Inl e) = False"
| "hasReplicas replicas (Inr obj) = (StatusReplicas (Status obj) = replicas)"

text \<open>
  A builder and the log after \<open>i\<close> fetch cycles of a status wait: \<open>i\<close> fetches were
  appended to the log, and the observed object is what the last of them returned.
\<close>

definition afterFetches ::
  "('sp, 'st) resource builder \<Rightarrow> ('sp, 'st) resource Settings \<Rightarrow> ('sp, 'st) resource
     \<Rightarrow> ('sp, 'st) resource call list \<Rightarrow> nat
     \<Rightarrow> ('sp, 'st) resource builder \<times> ('sp, 'st) resource call list" where
  "afterFetches b c d log i =
     ((case i of
         0 \<Rightarrow> b
       | Suc j \<Rightarrow> b\<lparr>Object := fetched (fetchReply c (log @ replicate j (fetchCall d)) d)\<rparr>),
      log @ replicate i (fetchCall d))"

subsection \<open>More example clusters and builders\<close>

text \<open>
  Scripted clusters: a host whose first fetch fails, whose second shows it provisioning
  and which is provisioned from the third on; a host that stays provisioning; a pool that
  reaches three replicas at the third fetch; a pool whose fetch always fails; a host that
  is there at the first fetch and gone afterwards; a host that is there at the first
  fetch, after which the cluster cannot be reached.
\<close>

definition lateHost :: "BareMetalHost Settings" where
  "lateHost = scripted [Inl unavailable, Inr (host StateProvisioning)]
                (Inr (host StateProvisioned)) None None"

definition neverHost :: "BareMetalHost Settings" where
  "neverHost = scripted [] (Inr (host StateProvisioning)) None None"

definition latePool :: "NodePool Settings" where
  "latePool = scripted [Inl unavailable, Inr (pool 1)] (Inr (pool 3)) None None"

definition neverPool :: "NodePool Settings" where
  "neverPool = scripted [] (Inl unavailable) None None"

definition goneHost :: "BareMetalHost Settings" where
  "goneHost = scripted [Inr (host StateReady)] (Inl notFound) None None"

definition brokenHost :: "BareMetalHost Settings" where
  "brokenHost = scripted [Inr (host StateReady)] (Inl unavailable) None None"

text \<open>
  Builders made with an empty name: a host, a pool, and a pool that was also given a nil
  client. \<open>absent\<close> is a cluster on which every fetch answers "not found".
\<close>

definition absent :: "'o Settings" where
  "absent = scripted [] (Inl notFound) None None"

definition namelessHost :: "BareMetalHost Settings \<Rightarrow> Builder" where
  "namelessHost c = NewBuilder (Some c) '''' ''ns0'' ''addr'' ''secret'' ''mac'' ''UEFI''"

definition namelessPool :: "NodePool Settings \<Rightarrow> NodePoolBuilder" where
  "namelessPool c = NewNodePoolBuilder (Some c) '''' ''ns0'' ''cluster0'' ''agents'' ''release0'' 3"

definition clientlessPool :: NodePoolBuilder where
  "clientlessPool = NewNodePoolBuilder None '''' ''ns0'' ''cluster0'' ''agents'' ''release0'' 3"

text \<open>A host builder made with an empty boot mode.\<close>

definition bootModelessHost :: "BareMetalHost Settings \<Rightarrow> Builder" where
  "bootModelessHost c = NewBuilder (Some c) ''host0'' ''ns0'' ''addr'' ''secret'' ''mac'' ''''"

text \<open>
  A cluster that cannot be reached: every fetch and every delete fails with an error
  that is not "not found".
\<close>

definition unreachable :: "BareMetalHost Settings" where
  "unreachable = scripted [] (Inl unavailable) None (Some unavailable)"

text \<open>
  An option function as a caller may write it:
  \<^verbatim>\<open>func(b *Builder) (*Builder, error) { b.WithRootDeviceModel(""); return b, errors.New(m) }\<close>
\<close>

definition modelOption :: "string \<Rightarrow> AdditionalOptions" where
  "modelOption m s =
     (case s of (b, log) \<Rightarrow>
        (case WithRootDeviceModel undefinedCrdText '''' b of
           Panic b' \<Rightarrow> Panic (b', log)
         | Return p b' \<Rightarrow> Return (Receiver, Some m) (b', log)))"

subsection \<open>The effect of validate\<close>

text \<open>
  A node-pool builder as \<open>validate\<close> leaves it: the error state is overwritten when the
  definition is nil, and again when the client is nil.
\<close>

definition afterValidate :: "(string \<Rightarrow> string) \<Rightarrow> NodePoolBuilder \<Rightarrow> NodePoolBuilder" where
  "afterValidate undefinedCrd b =
     b\<lparr>errorMsg :=
         (if apiClient b = None then ''NodePool builder cannot have nil apiClient''
          else if Definition b = None then undefinedCrd ''NodePool''
          else errorMsg b)\<rparr>"

section \<open>Basic facts\<close>

lemma Builder_Get_ok:
  "apiClient b = Some c \<Longrightarrow> Definition b = Some d \<Longrightarrow>
   Builder_Get (b, log) =
     Return (client_Get c log (Name (ObjectMeta d)) (Namespace (ObjectMeta d)))
            (b, log @ [GetCall (Name (ObjectMeta d)) (Namespace (ObjectMeta d))])"
  by (simp add: Builder_Get_def)

lemma Builder_Exists_ok:
  "apiClient b = Some c \<Longrightarrow> Definition b = Some d \<Longrightarrow>
   Builder_Exists (b, log) =
     Return (present (client_Get c log (Name (ObjectMeta d)) (Namespace (ObjectMeta d))))
            (b\<lparr>Object := fetched (client_Get c log (Name (ObjectMeta d)) (Namespace (ObjectMeta d)))\<rparr>,
             log @ [GetCall (Name (ObjectMeta d)) (Namespace (ObjectMeta d))])"
  by (simp add: Builder_Exists_def Builder_Get_ok)

lemma validate_clean:
  "Definition b = Some d \<Longrightarrow> apiClient b = Some c \<Longrightarrow> errorMsg b = '''' \<Longrightarrow>
   validate u (Some b) = (None, Some b)"
  by (simp add: validate_def)

lemma NodePoolBuilder_Get_ok:
  "Definition b = Some d \<Longrightarrow> apiClient b = Some c \<Longrightarrow> errorMsg b = '''' \<Longrightarrow>
   NodePoolBuilder_Get u (Some b, log) =
     Return (client_Get c log (Name (ObjectMeta d)) (Namespace (ObjectMeta d)))
            (Some b, log @ [GetCall (Name (ObjectMeta d)) (Namespace (ObjectMeta d))])"
  by (simp add: NodePoolBuilder_Get_def validate_clean)

lemma NodePoolBuilder_fetch_ok:
  "Definition b = Some d \<Longrightarrow> apiClient b = Some c \<Longrightarrow> errorMsg b = '''' \<Longrightarrow>
   NodePoolBuilder_fetch u (Some b, log) =
     Return (client_Get c log (Name (ObjectMeta d)) (Namespace (ObjectMeta d)))
            (Some (b\<lparr>Object := fetched (client_Get c log (Name (ObjectMeta d)) (Namespace (ObjectMeta d)))\<rparr>),
             log @ [GetCall (Name (ObjectMeta d)) (Namespace (ObjectMeta d))])"
  by (simp add: NodePoolBuilder_fetch_def NodePoolBuilder_Get_ok)

lemma NodePoolBuilder_Exists_ok:
  "Definition b = Some d \<Longrightarrow> apiClient b = Some c \<Longrightarrow> errorMsg b = '''' \<Longrightarrow>
   NodePoolBuilder_Exists u (Some b, log) =
     Return (present (client_Get c log (Name (ObjectMeta d)) (Namespace (ObjectMeta d))))
            (Some (b\<lparr>Object := fetched (client_Get c log (Name (ObjectMeta d)) (Namespace (ObjectMeta d)))\<rparr>),
             log @ [GetCall (Name (ObjectMeta d)) (Namespace (ObjectMeta d))])"
  by (simp add: NodePoolBuilder_Exists_def NodePoolBuilder_fetch_ok validate_clean)

lemma present_iff: "present r = (\<not> (\<exists>e. r = Inl e \<and> IsNotFound e))"
  by (cases r) auto

lemma hostBuilder_simps:
  "apiClient (hostBuilder c) = Some c" "Definition (hostBuilder c) = Some (host StateNone)"
  "errorMsg (hostBuilder c) = ''''" "Object (hostBuilder c) = None"
  by (simp_all add: hostBuilder_def NewBuilder_def host_def)

lemma poolBuilder_simps:
  "apiClient (poolBuilder c) = Some c" "Definition (poolBuilder c) = Some (pool 0)"
  "errorMsg (poolBuilder c) = ''''" "Object (poolBuilder c) = None"
  by (simp_all add: poolBuilder_def NewNodePoolBuilder_def pool_def)

lemma scripted_simps:
  "client_Get (scripted rs rest cr de) log n ns =
     (if length (filter isGetCall log) < length rs then rs ! length (filter isGetCall log) else rest)"
  "client_Create (scripted rs rest cr de) log obj = cr"
  "client_Delete (scripted rs rest cr de) log obj = de"
  by (simp_all add: scripted_def Let_def)

section \<open>Existence check\<close>

text \<open>
  C1. On a builder that passes validation (client and definition present, and for the node
  pool an empty error state), \<open>Exists\<close> performs one fetch and returns false exactly
  when that fetch fails with an error classified as "not found"; a successful fetch and a
  failure with any other error both give true.
\<close>

theorem Exists_false_iff_not_found:
  assumes "apiClient b = Some c" and "Definition b = Some d"
    and "apiClient nb = Some nc" and "Definition nb = Some nd" and "errorMsg nb = ''''"
  shows "Builder_Exists (b, log) =
           Return (\<not> (\<exists>e. client_Get c log (Name (ObjectMeta d)) (Namespace (ObjectMeta d)) = Inl e
                          \<and> IsNotFound e))
                  (b\<lparr>Object := fetched (client_Get c log (Name (ObjectMeta d))
                                         (Namespace (ObjectMeta d)))\<rparr>,
                   log @ [GetCall (Name (ObjectMeta d)) (Namespace (ObjectMeta d))])
       \<and> NodePoolBuilder_Exists u (Some nb, nlog) =
           Return (\<not> (\<exists>e. client_Get nc nlog (Name (ObjectMeta nd)) (Namespace (ObjectMeta nd)) = Inl e
                          \<and> IsNotFound e))
                  (Some (nb\<lparr>Object := fetched (client_Get nc nlog (Name (ObjectMeta nd))
                                                (Namespace (ObjectMeta nd)))\<rparr>),
                   nlog @ [GetCall (Name (ObjectMeta nd)) (Namespace (ObjectMeta nd))])"
  using assms by (simp add: Builder_Exists_ok NodePoolBuilder_Exists_ok present_iff)

theorem Exists_false_iff_not_found_witness:
  "apiClient (hostBuilder (scripted [] (Inl notFound) None None))
     = Some (scripted [] (Inl notFound) None None)
   \<and> Definition (hostBuilder (scripted [] (Inl notFound) None None)) = Some (host StateNone)
   \<and> apiClient (poolBuilder (scripted [] (Inl unavailable) None None))
     = Some (scripted [] (Inl unavailable) None None)
   \<and> Definition (poolBuilder (scripted [] (Inl unavailable) None None)) = Some (pool 0)
   \<and> errorMsg (poolBuilder (scripted [] (Inl unavailable) None None)) = ''''
   \<and> Builder_Exists (hostBuilder (scripted [] (Inl notFound) None None), []) =
       Return False
         ((hostBuilder (scripted [] (Inl notFound) None None))\<lparr>Object := None\<rparr>,
          [GetCall ''host0'' ''ns0''])
   \<and> NodePoolBuilder_Exists undefinedCrdText
              (Some (poolBuilder (scripted [] (Inl unavailable) None None)), []) =
       Return True
         (Some ((poolBuilder (scripted [] (Inl unavailable) None None))\<lparr>Object := None\<rparr>),
          [GetCall ''pool0'' ''ns0''])"
  using Exists_false_iff_not_found
    [of "hostBuilder (scripted [] (Inl notFound) None None)" "scripted [] (Inl notFound) None None"
        "host StateNone"
        "poolBuilder (scripted [] (Inl unavailable) None None)"
        "scripted [] (Inl unavailable) None None" "pool 0" "[]" undefinedCrdText "[]"]
  by (simp add: hostBuilder_simps poolBuilder_simps scripted_simps notFound_def unavailable_def
        host_def pool_def)

section \<open>Constructors: which message is kept\<close>

lemma lastFailing_Nil: "lastFailing [] = ''''"
  by (simp add: lastFailing_def)

lemma lastFailing_alt:
  "lastFailing checks =
     (if filter fst checks = [] then [] else snd (last (filter fst checks)))"
  by (cases "filter fst checks") (simp_all add: lastFailing_def)

lemma lastFailing_snoc:
  "lastFailing (checks @ [(p, m)]) = (if p then m else lastFailing checks)"
  by (simp add: lastFailing_alt)

lemma lastFailing6:
  "lastFailing [(p1, m1), (p2, m2), (p3, m3), (p4, m4), (p5, m5), (p6, m6)] =
     (if p6 then m6 else if p5 then m5 else if p4 then m4 else if p3 then m3
      else if p2 then m2 else if p1 then m1 else '''')"
  using lastFailing_snoc [of "[(p1, m1), (p2, m2), (p3, m3), (p4, m4), (p5, m5)]" p6 m6]
        lastFailing_snoc [of "[(p1, m1), (p2, m2), (p3, m3), (p4, m4)]" p5 m5]
        lastFailing_snoc [of "[(p1, m1), (p2, m2), (p3, m3)]" p4 m4]
        lastFailing_snoc [of "[(p1, m1), (p2, m2)]" p3 m3]
        lastFailing_snoc [of "[(p1, m1)]" p2 m2]
        lastFailing_snoc [of "[]" p1 m1] lastFailing_Nil
  by simp

lemma lastFailing4:
  "lastFailing [(p1, m1), (p2, m2), (p3, m3), (p4, m4)] =
     (if p4 then m4 else if p3 then m3 else if p2 then m2 else if p1 then m1 else '''')"
  using lastFailing_snoc [of "[(p1, m1), (p2, m2), (p3, m3)]" p4 m4]
        lastFailing_snoc [of "[(p1, m1), (p2, m2)]" p3 m3]
        lastFailing_snoc [of "[(p1, m1)]" p2 m2]
        lastFailing_snoc [of "[]" p1 m1] lastFailing_Nil
  by simp

lemma NewBuilder_errorMsg:
  "errorMsg (NewBuilder c name nsname bmcAddress bmcSecretName bootMacAddress bootMode) =
     (if bootMacAddress = '''' then ''BMH 'bootMacAddress' cannot be empty''
      else if bootMode \<notin> set [''UEFI'', ''UEFISecureBoot'', ''legacy'']
        then ''Not acceptable 'bootMode' value''
      else if bmcSecretName = '''' then ''BMH 'bmcSecretName' cannot be empty''
      else if bmcAddress = '''' then ''BMH 'bmcAddress' cannot be empty''
      else if nsname = '''' then ''BMH 'nsname' cannot be empty''
      else if name = '''' then ''BMH 'name' cannot be empty''
      else '''')"
  unfolding NewBuilder_def Let_def by simp

lemma NewNodePoolBuilder_errorMsg:
  "errorMsg (NewNodePoolBuilder c name nsname clusterName agentNamespace release replicas) =
     (if release = '''' then ''nodepool 'release' cannot be empty''
      else if clusterName = '''' then ''nodepool 'clusterName' cannot be empty''
      else if nsname = '''' then ''nodepool 'namespace' cannot be empty''
      else if name = '''' then ''nodepool 'name' cannot be empty''
      else '''')"
  unfolding NewNodePoolBuilder_def Let_def by simp

text \<open>
  C9. Every check of a constructor overwrites the error state, so after several failing
  checks the error state is the message of the last one in the order of the source. In
  \<open>NewBuilder\<close> the test of \<open>bootMacAddress\<close> comes after the test of \<open>bootMode\<close>: with
  an empty \<open>bootMacAddress\<close> the stored message is the one about the MAC address,
  whatever \<open>bootMode\<close> is.
\<close>

theorem constructor_last_failing_check:
  "errorMsg (NewBuilder c name nsname bmcAddress bmcSecretName bootMacAddress bootMode) =
     lastFailing (NewBuilder_checks name nsname bmcAddress bmcSecretName bootMacAddress bootMode)
   \<and> errorMsg (NewNodePoolBuilder nc pname pnsname clusterName agentNamespace release replicas) =
     lastFailing (NewNodePoolBuilder_checks pname pnsname clusterName release)
   \<and> errorMsg (NewBuilder c name nsname bmcAddress bmcSecretName '''' bootMode) =
     ''BMH 'bootMacAddress' cannot be empty''"
  unfolding NewBuilder_errorMsg NewNodePoolBuilder_errorMsg NewBuilder_checks_def
    NewNodePoolBuilder_checks_def lastFailing6 lastFailing4
  by simp

section \<open>Delete\<close>

lemma Builder_Delete_ok:
  assumes "apiClient b = Some c" and "Definition b = Some d"
  shows "Builder_Delete (b, log) =
           (if \<not> present (fetchReply c log d)
            then Return (Receiver,
                         Some (Errorf ''bmh cannot be deleted because it does not exist''))
                        (b\<lparr>Object := fetched (fetchReply c log d)\<rparr>, log @ [fetchCall d])
            else case client_Delete c (log @ [fetchCall d]) d of
                   None \<Rightarrow>
                     Return (Receiver, None)
                            (b\<lparr>Object := None\<rparr>, log @ [fetchCall d, DeleteCall d])
                 | Some e \<Rightarrow>
                     Return (Receiver, Some (Wrapf ''can not delete bmh: '' e))
                            (b\<lparr>Object := fetched (fetchReply c log d)\<rparr>,
                             log @ [fetchCall d, DeleteCall d]))"
  using assms by (simp add: Builder_Delete_def Builder_Exists_ok split: option.splits)

text \<open>
  C7, as amended. \<open>Delete\<close> first runs the existence check, which fetches the resource
  and stores the result as the observed object (nil when the fetch failed). If the check
  says false, \<open>Delete\<close> returns the error "bmh cannot be deleted because it does not
  exist" and the fetch is the only call it has made. If it says true, \<open>Delete\<close> issues
  the remote delete: when that succeeds the observed object becomes nil and no error is
  returned; when it fails the error is returned wrapped after "can not delete bmh: " and
  the observed object is left as the existence check of this call stored it, which need
  not be the object the builder held before the call.
\<close>

theorem Delete_follows_Exists:
  assumes "apiClient b = Some c" and "Definition b = Some d"
  shows "Builder_Exists (b, log) =
           Return (present (fetchReply c log d))
                  (b\<lparr>Object := fetched (fetchReply c log d)\<rparr>, log @ [fetchCall d])
       \<and> Builder_Delete (b, log) =
           (if \<not> present (fetchReply c log d)
            then Return (Receiver,
                         Some (Errorf ''bmh cannot be deleted because it does not exist''))
                        (b\<lparr>Object := fetched (fetchReply c log d)\<rparr>, log @ [fetchCall d])
            else case client_Delete c (log @ [fetchCall d]) d of
                   None \<Rightarrow>
                     Return (Receiver, None)
                            (b\<lparr>Object := None\<rparr>, log @ [fetchCall d, DeleteCall d])
                 | Some e \<Rightarrow>
                     Return (Receiver, Some (Wrapf ''can not delete bmh: '' e))
                            (b\<lparr>Object := fetched (fetchReply c log d)\<rparr>,
                             log @ [fetchCall d, DeleteCall d]))"
  using assms by (simp add: Builder_Delete_ok Builder_Exists_ok)

theorem Delete_follows_Exists_witness:
  "apiClient (hostBuilder (scripted [] (Inl notFound) None None))
     = Some (scripted [] (Inl notFound) None None)
   \<and> Definition (hostBuilder (scripted [] (Inl notFound) None None)) = Some (host StateNone)
   \<and> Builder_Delete (hostBuilder (scripted [] (Inl notFound) None None), []) =
       Return (Receiver, Some (Errorf ''bmh cannot be deleted because it does not exist''))
         ((hostBuilder (scripted [] (Inl notFound) None None))\<lparr>Object := None\<rparr>,
          [GetCall ''host0'' ''ns0''])
   \<and> Builder_Delete (hostBuilder (scripted [] (Inr (host StateReady)) None None), []) =
       Return (Receiver, None)
         ((hostBuilder (scripted [] (Inr (host StateReady)) None None))\<lparr>Object := None\<rparr>,
          [GetCall ''host0'' ''ns0'', DeleteCall (host StateNone)])
   \<and> Builder_Delete (hostBuilder (scripted [] (Inr (host StateReady)) None (Some unavailable)), []) =
       Return (Receiver, Some (Wrapf ''can not delete bmh: '' unavailable))
         ((hostBuilder (scripted [] (Inr (host StateReady)) None (Some unavailable)))
            \<lparr>Object := Some (host StateReady)\<rparr>,
          [GetCall ''host0'' ''ns0'', DeleteCall (host StateNone)])"
  using Delete_follows_Exists
          [of "hostBuilder (scripted [] (Inl notFound) None None)"
              "scripted [] (Inl notFound) None None" "host StateNone" "[]"]
        Delete_follows_Exists
          [of "hostBuilder (scripted [] (Inr (host StateReady)) None None)"
              "scripted [] (Inr (host StateReady)) None None" "host StateNone" "[]"]
        Delete_follows_Exists
          [of "hostBuilder (scripted [] (Inr (host StateReady)) None (Some unavailable))"
              "scripted [] (Inr (host StateReady)) None (Some unavailable)" "host StateNone" "[]"]
  by (simp add: hostBuilder_simps scripted_simps notFound_def host_def)

lemma unreachable_simps:
  "client_Get unreachable log n ns = Inl unavailable"
  "client_Create unreachable log obj = None"
  "client_Delete unreachable log obj = Some unavailable"
  by (simp_all add: unreachable_def scripted_simps)

text \<open>
  The statement of C7 itself fails in its last part: the observed object is not left
  unchanged when the remote delete fails. A builder that holds an observed object and
  whose cluster cannot be reached passes the existence check (the fetch error is not
  "not found"), fails the remote delete, and ends with the observed object nil.
\<close>

theorem Delete_replaces_observed_object:
  "Object ((hostBuilder unreachable)\<lparr>Object := Some (host StateReady)\<rparr>) =
     Some (host StateReady)
   \<and> Builder_Exists ((hostBuilder unreachable)\<lparr>Object := Some (host StateReady)\<rparr>, []) =
       Return True ((hostBuilder unreachable)\<lparr>Object := None\<rparr>, [GetCall ''host0'' ''ns0''])
   \<and> Builder_Delete ((hostBuilder unreachable)\<lparr>Object := Some (host StateReady)\<rparr>, []) =
       Return (Receiver, Some (Wrapf ''can not delete bmh: '' unavailable))
         ((hostBuilder unreachable)\<lparr>Object := None\<rparr>,
          [GetCall ''host0'' ''ns0'', DeleteCall (host StateNone)])"
  by (simp add: Builder_Delete_ok [where c = unreachable and d = "host StateNone"]
        Builder_Exists_ok [where c = unreachable and d = "host StateNone"]
        hostBuilder_simps unreachable_simps host_def unavailable_def)

section \<open>The vendor hint\<close>

lemma setRootDeviceHint_clean:
  "Definition b = Some d \<Longrightarrow> errorMsg b = '''' \<Longrightarrow> \<not> rejected \<Longrightarrow>
   setRootDeviceHint um rejected rm assign b =
     Return Receiver
       (b\<lparr>Definition := Some (d\<lparr>Spec := (Spec d)\<lparr>RootDeviceHints :=
            Some (assign (case RootDeviceHints (Spec d) of
                            None \<Rightarrow> emptyRootDeviceHints | Some h \<Rightarrow> h))\<rparr>\<rparr>)\<rparr>)"
  by (simp add: setRootDeviceHint_def)

lemma setRootDeviceHint_error:
  "errorMsg b \<noteq> [] \<Longrightarrow> um \<noteq> [] \<Longrightarrow> (rejected \<Longrightarrow> rm \<noteq> []) \<Longrightarrow>
   setRootDeviceHint um rejected rm assign b =
     Return Receiver
       (b\<lparr>errorMsg := (if rejected then rm else if Definition b = None then um else errorMsg b)\<rparr>)"
  by (cases rejected; cases "Definition b") (simp_all add: setRootDeviceHint_def)

text \<open>
  C6. On a builder with a definition and an empty error state, \<open>WithRootDeviceVendor\<close>
  called with \<open>"acme"\<close> allocates the root-device hints and stores the value in the field
  \<open>Model\<close>; the field \<open>Vendor\<close>, which the method is named and documented for, keeps the
  empty string.
\<close>

theorem WithRootDeviceVendor_assigns_Model:
  "WithRootDeviceVendor undefinedCrd ''acme'' (hostBuilder c) =
     Return Receiver
       ((hostBuilder c)\<lparr>Definition := Some ((host StateNone)\<lparr>Spec := (Spec (host StateNone))
           \<lparr>RootDeviceHints := Some (emptyRootDeviceHints\<lparr>Model := ''acme''\<rparr>)\<rparr>\<rparr>)\<rparr>)
   \<and> Vendor (emptyRootDeviceHints\<lparr>Model := ''acme''\<rparr>) = ''''
   \<and> Model (emptyRootDeviceHints\<lparr>Model := ''acme''\<rparr>) = ''acme''"
  by (simp add: WithRootDeviceVendor_def setRootDeviceHint_clean [where d = "host StateNone"]
        hostBuilder_simps emptyRootDeviceHints_def host_def)

text \<open>
  For comparison, the other string-valued mutators: with a definition, an empty error
  state and a non-empty argument, each assigns the field it is named after, in hints
  that are allocated when absent, and changes nothing else.
\<close>

lemma string_hint_mutators_assign_their_field:
  assumes "Definition b = Some d" and "errorMsg b = ''''" and "v \<noteq> ''''"
  defines "hints \<equiv> (case RootDeviceHints (Spec d) of
                       None \<Rightarrow> emptyRootDeviceHints | Some h \<Rightarrow> h)"
  shows "WithRootDeviceDeviceName u v b =
           Return Receiver (b\<lparr>Definition := Some (d\<lparr>Spec := (Spec d)
             \<lparr>RootDeviceHints := Some (hints\<lparr>DeviceName := v\<rparr>)\<rparr>\<rparr>)\<rparr>)"
    and "WithRootDeviceHTCL u v b =
           Return Receiver (b\<lparr>Definition := Some (d\<lparr>Spec := (Spec d)
             \<lparr>RootDeviceHints := Some (hints\<lparr>HCTL := v\<rparr>)\<rparr>\<rparr>)\<rparr>)"
    and "WithRootDeviceModel u v b =
           Return Receiver (b\<lparr>Definition := Some (d\<lparr>Spec := (Spec d)
             \<lparr>RootDeviceHints := Some (hints\<lparr>Model := v\<rparr>)\<rparr>\<rparr>)\<rparr>)"
    and "WithRootDeviceSerialNumber u v b =
           Return Receiver (b\<lparr>Definition := Some (d\<lparr>Spec := (Spec d)
             \<lparr>RootDeviceHints := Some (hints\<lparr>SerialNumber := v\<rparr>)\<rparr>\<rparr>)\<rparr>)"
    and "WithRootDeviceWWN u v b =
           Return Receiver (b\<lparr>Definition := Some (d\<lparr>Spec := (Spec d)
             \<lparr>RootDeviceHints := Some (hints\<lparr>WWN := v\<rparr>)\<rparr>\<rparr>)\<rparr>)"
    and "WithRootDeviceWWNWithExtension u v b =
           Return Receiver (b\<lparr>Definition := Some (d\<lparr>Spec := (Spec d)
             \<lparr>RootDeviceHints := Some (hints\<lparr>WWNWithExtension := v\<rparr>)\<rparr>\<rparr>)\<rparr>)"
    and "WithRootDeviceWWNVendorExtension u v b =
           Return Receiver (b\<lparr>Definition := Some (d\<lparr>Spec := (Spec d)
             \<lparr>RootDeviceHints := Some (hints\<lparr>WWNVendorExtension := v\<rparr>)\<rparr>\<rparr>)\<rparr>)"
  using assms(1-3) unfolding hints_def
  by (simp_all add: WithRootDeviceDeviceName_def WithRootDeviceHTCL_def WithRootDeviceModel_def
        WithRootDeviceSerialNumber_def WithRootDeviceWWN_def WithRootDeviceWWNWithExtension_def
        WithRootDeviceWWNVendorExtension_def setRootDeviceHint_clean)

text \<open>With an error state set, every mutator leaves the definition as it is.\<close>

lemma setRootDeviceHint_error_frame:
  "errorMsg b \<noteq> [] \<Longrightarrow> um \<noteq> [] \<Longrightarrow> (rejected \<Longrightarrow> rm \<noteq> []) \<Longrightarrow>
   Definition (final (setRootDeviceHint um rejected rm assign b)) = Definition b"
  by (simp add: setRootDeviceHint_error)

section \<open>One cycle of each wait\<close>

lemma WaitUntilInStatus_condition_ok:
  "apiClient b = Some c \<Longrightarrow> Definition b = Some d \<Longrightarrow>
   WaitUntilInStatus_condition st (b, log) =
     Return (inState st (fetchReply c log d), None)
            (b\<lparr>Object := fetched (fetchReply c log d)\<rparr>, log @ [fetchCall d])"
  by (cases "fetchReply c log d") (simp_all add: WaitUntilInStatus_condition_def Builder_Get_ok)

lemma WaitForReplicas_condition_ok:
  "Definition b = Some d \<Longrightarrow> apiClient b = Some c \<Longrightarrow> errorMsg b = '''' \<Longrightarrow>
   WaitForReplicas_condition u r (Some b, log) =
     Return (hasReplicas r (fetchReply c log d), None)
            (Some (b\<lparr>Object := fetched (fetchReply c log d)\<rparr>), log @ [fetchCall d])"
  by (cases "fetchReply c log d")
     (simp_all add: WaitForReplicas_condition_def NodePoolBuilder_fetch_ok)

lemma WaitUntilDeleted_condition_ok:
  "apiClient b = Some c \<Longrightarrow> Definition b = Some d \<Longrightarrow>
   WaitUntilDeleted_condition (b, log) =
     (case fetchReply c log d of
        Inr obj \<Rightarrow> Return (False, None) (b, log @ [fetchCall d])
      | Inl e \<Rightarrow> if IsNotFound e then Return (True, None) (b, log @ [fetchCall d])
                 else Return (False, Some e) (b, log @ [fetchCall d]))"
  by (cases "fetchReply c log d") (simp_all add: WaitUntilDeleted_condition_def Builder_Get_ok)

text \<open>
  C2. With the error state empty, the status waits are polls of their conditions. In one
  cycle of the provisioning-state wait and of the replica-count wait, a fetch that
  returns an error yields no error: the next cycle follows, as after a successful fetch
  of an object that does not match. In one cycle of the deletion wait, a fetch that
  returns a "not found" error ends the wait with success, a fetch that returns any
  other error ends it with that error, and a successful fetch leads to the next cycle.
\<close>

theorem wait_cycle_by_fetch_result:
  assumes "apiClient b = Some c" and "Definition b = Some d" and "errorMsg b = ''''"
    and "apiClient nb = Some nc" and "Definition nb = Some nd" and "errorMsg nb = ''''"
  shows "WaitUntilInStatus st t (b, log) =
           poll (Suc (ticks Second t)) (WaitUntilInStatus_condition st) (b, log)
       \<and> WaitForReplicas u r t (Some nb, nlog) =
           (case poll (Suc (ticks Second t)) (WaitForReplicas_condition u r) (Some nb, nlog) of
              Panic s' \<Rightarrow> Panic s'
            | Return None s' \<Rightarrow> Return (self (fst s'), None) s'
            | Return (Some e) s' \<Rightarrow> Return (NilPtr, Some e) s')
       \<and> WaitUntilDeleted t (b, log) = poll (ticks Second t) WaitUntilDeleted_condition (b, log)
       \<and> poll (Suc n) (WaitUntilInStatus_condition st) (b, log) =
           (case fetchReply c log d of
              Inl e \<Rightarrow> poll n (WaitUntilInStatus_condition st)
                         (b\<lparr>Object := None\<rparr>, log @ [fetchCall d])
            | Inr obj \<Rightarrow>
                if State (Provisioning (Status obj)) = st
                then Return None (b\<lparr>Object := Some obj\<rparr>, log @ [fetchCall d])
                else poll n (WaitUntilInStatus_condition st)
                       (b\<lparr>Object := Some obj\<rparr>, log @ [fetchCall d]))
       \<and> poll (Suc n) (WaitForReplicas_condition u r) (Some nb, nlog) =
           (case fetchReply nc nlog nd of
              Inl e \<Rightarrow> poll n (WaitForReplicas_condition u r)
                         (Some (nb\<lparr>Object := None\<rparr>), nlog @ [fetchCall nd])
            | Inr obj \<Rightarrow>
                if StatusReplicas (Status obj) = r
                then Return None (Some (nb\<lparr>Object := Some obj\<rparr>), nlog @ [fetchCall nd])
                else poll n (WaitForReplicas_condition u r)
                       (Some (nb\<lparr>Object := Some obj\<rparr>), nlog @ [fetchCall nd]))
       \<and> poll (Suc n) WaitUntilDeleted_condition (b, log) =
           (case fetchReply c log d of
              Inl e \<Rightarrow> if IsNotFound e then Return None (b, log @ [fetchCall d])
                       else Return (Some e) (b, log @ [fetchCall d])
            | Inr obj \<Rightarrow> poll n WaitUntilDeleted_condition (b, log @ [fetchCall d]))"
proof -
  have 1: "WaitUntilInStatus st t (b, log) =
             poll (Suc (ticks Second t)) (WaitUntilInStatus_condition st) (b, log)"
    using assms(3) by (simp add: WaitUntilInStatus_def PollImmediate_def)
  have 2: "WaitForReplicas u r t (Some nb, nlog) =
           (case poll (Suc (ticks Second t)) (WaitForReplicas_condition u r) (Some nb, nlog) of
              Panic s' \<Rightarrow> Panic s'
            | Return None s' \<Rightarrow> Return (self (fst s'), None) s'
            | Return (Some e) s' \<Rightarrow> Return (NilPtr, Some e) s')"
    using assms(4-6) by (simp add: WaitForReplicas_def PollImmediate_def validate_clean)
  have 3: "WaitUntilDeleted t (b, log) = poll (ticks Second t) WaitUntilDeleted_condition (b, log)"
    by (simp add: WaitUntilDeleted_def Poll_def)
  have 4: "poll (Suc n) (WaitUntilInStatus_condition st) (b, log) =
           (case fetchReply c log d of
              Inl e \<Rightarrow> poll n (WaitUntilInStatus_condition st)
                         (b\<lparr>Object := None\<rparr>, log @ [fetchCall d])
            | Inr obj \<Rightarrow>
                if State (Provisioning (Status obj)) = st
                then Return None (b\<lparr>Object := Some obj\<rparr>, log @ [fetchCall d])
                else poll n (WaitUntilInStatus_condition st)
                       (b\<lparr>Object := Some obj\<rparr>, log @ [fetchCall d]))"
    using assms(1,2)
    by (cases "fetchReply c log d") (simp_all add: WaitUntilInStatus_condition_ok)
  have 5: "poll (Suc n) (WaitForReplicas_condition u r) (Some nb, nlog) =
           (case fetchReply nc nlog nd of
              Inl e \<Rightarrow> poll n (WaitForReplicas_condition u r)
                         (Some (nb\<lparr>Object := None\<rparr>), nlog @ [fetchCall nd])
            | Inr obj \<Rightarrow>
                if StatusReplicas (Status obj) = r
                then Return None (Some (nb\<lparr>Object := Some obj\<rparr>), nlog @ [fetchCall nd])
                else poll n (WaitForReplicas_condition u r)
                       (Some (nb\<lparr>Object := Some obj\<rparr>), nlog @ [fetchCall nd]))"
    using assms(4-6)
    by (cases "fetchReply nc nlog nd") (simp_all add: WaitForReplicas_condition_ok)
  have 6: "poll (Suc n) WaitUntilDeleted_condition (b, log) =
           (case fetchReply c log d of
              Inl e \<Rightarrow> if IsNotFound e then Return None (b, log @ [fetchCall d])
                       else Return (Some e) (b, log @ [fetchCall d])
            | Inr obj \<Rightarrow> poll n WaitUntilDeleted_condition (b, log @ [fetchCall d]))"
    using assms(1,2)
    by (cases "fetchReply c log d") (simp_all add: WaitUntilDeleted_condition_ok)
  from 1 2 3 4 5 6 show ?thesis by blast
qed

section \<open>Evaluating the waits on the example clusters\<close>

lemma ticks_seconds: "ticks Second (a * Second) = nat a"
  by (simp add: ticks_def Second_def)

lemma poll_numeral:
  "poll (numeral k) condition s =
     (case condition s of
        Panic s' \<Rightarrow> Panic s'
      | Return (done, Some e) s' \<Rightarrow> Return (Some e) s'
      | Return (True, None) s' \<Rightarrow> Return None s'
      | Return (False, None) s' \<Rightarrow> poll (pred_numeral k) condition s')"
  by (simp add: numeral_eq_Suc)

lemma fixture_clients:
  "client_Get lateHost log n ns =
     (if length (filter isGetCall log) < 2
      then [Inl unavailable, Inr (host StateProvisioning)] ! length (filter isGetCall log)
      else Inr (host StateProvisioned))"
  "client_Get neverHost log n ns = Inr (host StateProvisioning)"
  "client_Get latePool plog n ns =
     (if length (filter isGetCall plog) < 2
      then [Inl unavailable, Inr (pool 1)] ! length (filter isGetCall plog)
      else Inr (pool 3))"
  "client_Get neverPool plog n ns = Inl unavailable"
  "client_Get goneHost log n ns =
     (if length (filter isGetCall log) < 1 then Inr (host StateReady) else Inl notFound)"
  "client_Get brokenHost log n ns =
     (if length (filter isGetCall log) < 1 then Inr (host StateReady) else Inl unavailable)"
  "client_Delete goneHost log obj = None"
  "client_Delete brokenHost log obj = None"
  by (simp_all add: lateHost_def neverHost_def latePool_def neverPool_def goneHost_def
        brokenHost_def scripted_simps)

lemma host_simps:
  "Name (ObjectMeta (host st)) = ''host0''" "Namespace (ObjectMeta (host st)) = ''ns0''"
  "State (Provisioning (Status (host st))) = st"
  by (simp_all add: host_def)

lemma pool_simps:
  "Name (ObjectMeta (pool n)) = ''pool0''" "Namespace (ObjectMeta (pool n)) = ''ns0''"
  "StatusReplicas (Status (pool n)) = n"
  by (simp_all add: pool_def)

theorem wait_cycle_by_fetch_result_witness:
  "apiClient (hostBuilder lateHost) = Some lateHost
   \<and> Definition (hostBuilder lateHost) = Some (host StateNone)
   \<and> errorMsg (hostBuilder lateHost) = []
   \<and> apiClient (poolBuilder latePool) = Some latePool
   \<and> Definition (poolBuilder latePool) = Some (pool 0)
   \<and> errorMsg (poolBuilder latePool) = []
   \<and> WaitUntilInStatus StateProvisioning (5 * Second) (hostBuilder lateHost, []) =
       Return None ((hostBuilder lateHost)\<lparr>Object := Some (host StateProvisioning)\<rparr>,
                    [GetCall ''host0'' ''ns0'', GetCall ''host0'' ''ns0''])
   \<and> WaitForReplicas undefinedCrdText 1 (5 * Second) (Some (poolBuilder latePool), []) =
       Return (Receiver, None)
         (Some ((poolBuilder latePool)\<lparr>Object := Some (pool 1)\<rparr>),
          [GetCall ''pool0'' ''ns0'', GetCall ''pool0'' ''ns0''])
   \<and> WaitUntilDeleted (5 * Second) (hostBuilder goneHost, []) =
       Return None (hostBuilder goneHost, [GetCall ''host0'' ''ns0'', GetCall ''host0'' ''ns0''])
   \<and> WaitUntilDeleted (5 * Second) (hostBuilder brokenHost, []) =
       Return (Some unavailable)
         (hostBuilder brokenHost, [GetCall ''host0'' ''ns0'', GetCall ''host0'' ''ns0''])"
proof -
  note pool_ok = poolBuilder_simps(1,2,3) [of latePool]
  note late = wait_cycle_by_fetch_result
      [where c = lateHost and nc = latePool and st = StateProvisioning and t = "5 * Second"
         and log = "[]" and u = undefinedCrdText and r = 1 and nlog = "[]",
       OF hostBuilder_simps(1,2,3) pool_ok]
  note gone = wait_cycle_by_fetch_result
      [where c = goneHost and nc = latePool and t = "5 * Second" and log = "[]",
       OF hostBuilder_simps(1,2,3) pool_ok]
  note broken = wait_cycle_by_fetch_result
      [where c = brokenHost and nc = latePool and t = "5 * Second" and log = "[]",
       OF hostBuilder_simps(1,2,3) pool_ok]
  have 1: "WaitUntilInStatus StateProvisioning (5 * Second) (hostBuilder lateHost, []) =
       Return None ((hostBuilder lateHost)\<lparr>Object := Some (host StateProvisioning)\<rparr>,
                    [GetCall ''host0'' ''ns0'', GetCall ''host0'' ''ns0''])"
    unfolding late [THEN conjunct1]
    by (simp add: ticks_seconds poll_numeral hostBuilder_simps
          WaitUntilInStatus_condition_ok [where d = "host StateNone"] fixture_clients host_simps)
  have 2: "WaitForReplicas undefinedCrdText 1 (5 * Second) (Some (poolBuilder latePool), []) =
       Return (Receiver, None)
         (Some ((poolBuilder latePool)\<lparr>Object := Some (pool 1)\<rparr>),
          [GetCall ''pool0'' ''ns0'', GetCall ''pool0'' ''ns0''])"
    unfolding late [THEN conjunct2, THEN conjunct1]
    by (simp add: ticks_seconds poll_numeral poolBuilder_simps
          WaitForReplicas_condition_ok [where d = "pool 0"] fixture_clients pool_simps)
  have 3: "WaitUntilDeleted (5 * Second) (hostBuilder goneHost, []) =
       Return None (hostBuilder goneHost, [GetCall ''host0'' ''ns0'', GetCall ''host0'' ''ns0''])"
    unfolding gone [THEN conjunct2, THEN conjunct2, THEN conjunct1]
    by (simp add: ticks_seconds poll_numeral hostBuilder_simps
          WaitUntilDeleted_condition_ok [where d = "host StateNone"] fixture_clients host_simps
          notFound_def)
  have 4: "WaitUntilDeleted (5 * Second) (hostBuilder brokenHost, []) =
       Return (Some unavailable)
         (hostBuilder brokenHost, [GetCall ''host0'' ''ns0'', GetCall ''host0'' ''ns0''])"
    unfolding broken [THEN conjunct2, THEN conjunct2, THEN conjunct1]
    by (simp add: ticks_seconds poll_numeral hostBuilder_simps
          WaitUntilDeleted_condition_ok [where d = "host StateNone"] fixture_clients host_simps
          unavailable_def)
  show ?thesis
    by (intro conjI) (rule hostBuilder_simps pool_ok 1 2 3 4)+
qed

section \<open>A wait as a sequence of fetch cycles\<close>

text \<open>
  As long as the condition answers "not yet", a poll walks along the sequence of states
  \<open>S\<close> and uses up one evaluation per step.
\<close>

lemma poll_skip:
  assumes "\<And>i. i < k \<Longrightarrow> cond (S (j + i)) = Return (False, None) (S (Suc (j + i)))"
    and "k \<le> n"
  shows "poll n cond (S j) = poll (n - k) cond (S (j + k))"
  using assms
proof (induction k arbitrary: j n)
  case 0
  then show ?case by simp
next
  case (Suc k)
  from Suc.prems(2) obtain m where n: "n = Suc m" and km: "k \<le> m"
    by (cases n) auto
  have first: "cond (S j) = Return (False, None) (S (Suc j))"
    using Suc.prems(1) [of 0] by simp
  have rest: "\<And>i. i < k \<Longrightarrow> cond (S (Suc j + i)) = Return (False, None) (S (Suc (Suc j + i)))"
    using Suc.prems(1) [of "Suc i" for i] by simp
  have "poll n cond (S j) = poll m cond (S (Suc j))"
    by (simp add: n first)
  also have "\<dots> = poll (m - k) cond (S (Suc j + k))"
    using rest km by (rule Suc.IH)
  finally show ?case by (simp add: n)
qed

lemma poll_first_hit:
  assumes "\<And>i. i < k \<Longrightarrow> cond (S i) = Return (False, None) (S (Suc i))"
    and "cond (S k) = Return (True, None) (S (Suc k))"
    and "k < n"
  shows "poll n cond (S 0) = Return None (S (Suc k))"
proof -
  from assms(3) obtain m where m: "n - k = Suc m"
    by (cases "n - k") auto
  have "poll n cond (S 0) = poll (n - k) cond (S (0 + k))"
    using assms(1,3) by (intro poll_skip) auto
  then show ?thesis by (simp add: m assms(2))
qed

lemma poll_no_hit:
  assumes "\<And>i. i < n \<Longrightarrow> cond (S i) = Return (False, None) (S (Suc i))"
  shows "poll n cond (S 0) = Return (Some ErrWaitTimeout) (S n)"
proof -
  have "poll n cond (S 0) = poll (n - n) cond (S (0 + n))"
    using assms by (intro poll_skip) auto
  then show ?thesis by simp
qed

lemma afterFetches_fields:
  "apiClient (fst (afterFetches b c d log i)) = apiClient b"
  "Definition (fst (afterFetches b c d log i)) = Definition b"
  "errorMsg (fst (afterFetches b c d log i)) = errorMsg b"
  "snd (afterFetches b c d log i) = log @ replicate i (fetchCall d)"
  by (cases i; simp add: afterFetches_def)+

lemma afterFetches_Suc:
  "afterFetches b c d log (Suc i) =
     ((fst (afterFetches b c d log i))
        \<lparr>Object := fetched (fetchReply c (snd (afterFetches b c d log i)) d)\<rparr>,
      snd (afterFetches b c d log i) @ [fetchCall d])"
  by (cases i) (simp_all add: afterFetches_def replicate_append_same)

lemma WaitUntilInStatus_condition_afterFetches:
  assumes "apiClient b = Some c" and "Definition b = Some d"
  shows "WaitUntilInStatus_condition st (afterFetches b c d log i) =
           Return (inState st (fetchReply c (log @ replicate i (fetchCall d)) d), None)
                  (afterFetches b c d log (Suc i))"
proof -
  obtain b' log' where s: "afterFetches b c d log i = (b', log')"
    by (cases "afterFetches b c d log i")
  have b': "apiClient b' = Some c" "Definition b' = Some d" "log' = log @ replicate i (fetchCall d)"
    using afterFetches_fields [of b c d log i] assms by (simp_all add: s)
  show ?thesis
    unfolding afterFetches_Suc
    using b' by (simp add: s WaitUntilInStatus_condition_ok)
qed

lemma WaitForReplicas_condition_afterFetches:
  assumes "apiClient b = Some c" and "Definition b = Some d" and "errorMsg b = ''''"
  shows "WaitForReplicas_condition u r (apfst Some (afterFetches b c d log i)) =
           Return (hasReplicas r (fetchReply c (log @ replicate i (fetchCall d)) d), None)
                  (apfst Some (afterFetches b c d log (Suc i)))"
proof -
  obtain b' log' where s: "afterFetches b c d log i = (b', log')"
    by (cases "afterFetches b c d log i")
  have b': "apiClient b' = Some c" "Definition b' = Some d" "errorMsg b' = ''''"
    "log' = log @ replicate i (fetchCall d)"
    using afterFetches_fields [of b c d log i] assms by (simp_all add: s)
  show ?thesis
    unfolding afterFetches_Suc
    using b' by (simp add: s WaitForReplicas_condition_ok)
qed

lemma afterFetches_0: "afterFetches b c d log 0 = (b, log)"
  by (simp add: afterFetches_def)

lemma seconds_within:
  assumes "int k * Second < timeout"
  shows "k \<le> ticks Second timeout"
proof -
  have "int k * Second div Second \<le> timeout div Second"
    using assms by (intro zdiv_mono1) (simp_all add: Second_def)
  then have "int k \<le> timeout div Second"
    by (simp add: Second_def)
  then show ?thesis by (simp add: ticks_def)
qed

lemma WaitUntilInStatus_reached:
  assumes "apiClient b = Some c" and "Definition b = Some d" and "errorMsg b = ''''"
    and "j < Suc (ticks Second timeout)"
    and "\<And>i. i < j \<Longrightarrow> \<not> inState st (fetchReply c (log @ replicate i (fetchCall d)) d)"
    and "inState st (fetchReply c (log @ replicate j (fetchCall d)) d)"
  shows "WaitUntilInStatus st timeout (b, log) = Return None (afterFetches b c d log (Suc j))"
proof -
  have "poll (Suc (ticks Second timeout)) (WaitUntilInStatus_condition st) (afterFetches b c d log 0) =
          Return None (afterFetches b c d log (Suc j))"
    using assms(4-6)
    by (intro poll_first_hit)
       (simp_all add: WaitUntilInStatus_condition_afterFetches [OF assms(1,2)])
  then show ?thesis
    using assms(3) by (simp add: WaitUntilInStatus_def PollImmediate_def afterFetches_0)
qed

lemma WaitUntilInStatus_timeout:
  assumes "apiClient b = Some c" and "Definition b = Some d" and "errorMsg b = ''''"
    and "\<And>i. i \<le> ticks Second timeout \<Longrightarrow>
           \<not> inState st (fetchReply c (log @ replicate i (fetchCall d)) d)"
  shows "WaitUntilInStatus st timeout (b, log) =
           Return (Some ErrWaitTimeout) (afterFetches b c d log (Suc (ticks Second timeout)))"
proof -
  have "poll (Suc (ticks Second timeout)) (WaitUntilInStatus_condition st) (afterFetches b c d log 0) =
          Return (Some ErrWaitTimeout) (afterFetches b c d log (Suc (ticks Second timeout)))"
    using assms(4)
    by (intro poll_no_hit)
       (simp_all add: WaitUntilInStatus_condition_afterFetches [OF assms(1,2)])
  then show ?thesis
    using assms(3) by (simp add: WaitUntilInStatus_def PollImmediate_def afterFetches_0)
qed

lemma WaitForReplicas_start:
  assumes "apiClient b = Some c" and "Definition b = Some d" and "errorMsg b = ''''"
  shows "WaitForReplicas u r timeout (Some b, log) =
           (case poll (Suc (ticks Second timeout)) (WaitForReplicas_condition u r)
                   (apfst Some (afterFetches b c d log 0)) of
              Panic s' \<Rightarrow> Panic s'
            | Return None s' \<Rightarrow> Return (self (fst s'), None) s'
            | Return (Some e) s' \<Rightarrow> Return (NilPtr, Some e) s')"
  using assms by (simp add: WaitForReplicas_def PollImmediate_def validate_clean afterFetches_0)

lemma self_afterFetches: "self (fst (apfst Some s)) = Receiver"
  by (cases s) simp

lemma WaitForReplicas_reached:
  assumes "apiClient b = Some c" and "Definition b = Some d" and "errorMsg b = ''''"
    and "j < Suc (ticks Second timeout)"
    and "\<And>i. i < j \<Longrightarrow> \<not> hasReplicas r (fetchReply c (log @ replicate i (fetchCall d)) d)"
    and "hasReplicas r (fetchReply c (log @ replicate j (fetchCall d)) d)"
  shows "WaitForReplicas u r timeout (Some b, log) =
           Return (Receiver, None) (apfst Some (afterFetches b c d log (Suc j)))"
proof -
  have "poll (Suc (ticks Second timeout)) (WaitForReplicas_condition u r)
          ((\<lambda>i. apfst Some (afterFetches b c d log i)) 0) =
          Return None ((\<lambda>i. apfst Some (afterFetches b c d log i)) (Suc j))"
    using assms(4-6)
    by (intro poll_first_hit)
       (simp_all add: WaitForReplicas_condition_afterFetches [OF assms(1-3)])
  then show ?thesis
    by (simp add: WaitForReplicas_start [OF assms(1-3)] self_afterFetches)
qed

lemma WaitForReplicas_timeout:
  assumes "apiClient b = Some c" and "Definition b = Some d" and "errorMsg b = ''''"
    and "\<And>i. i \<le> ticks Second timeout \<Longrightarrow>
           \<not> hasReplicas r (fetchReply c (log @ replicate i (fetchCall d)) d)"
  shows "WaitForReplicas u r timeout (Some b, log) =
           Return (NilPtr, Some ErrWaitTimeout)
                  (apfst Some (afterFetches b c d log (Suc (ticks Second timeout))))"
proof -
  have "poll (Suc (ticks Second timeout)) (WaitForReplicas_condition u r)
          ((\<lambda>i. apfst Some (afterFetches b c d log i)) 0) =
          Return (Some ErrWaitTimeout)
            ((\<lambda>i. apfst Some (afterFetches b c d log i)) (Suc (ticks Second timeout)))"
    using assms(4)
    by (intro poll_no_hit)
       (simp_all add: WaitForReplicas_condition_afterFetches [OF assms(1-3)])
  then show ?thesis
    by (simp add: WaitForReplicas_start [OF assms(1-3)])
qed

text \<open>
  C8. A status wait whose error state is empty fetches once per second, starting at
  once. If the k-th fetch is the first whose result meets the target (the provisioning
  state, or the replica count) and k seconds are less than the timeout, the wait returns
  success right after that fetch: exactly k fetches were made, and the observed object is
  the result of the last. If no fetch made within the timeout meets the target, the wait
  returns the timeout error (and \<open>WaitForReplicas\<close> a nil builder with it).
\<close>

theorem status_wait_success_or_timeout:
  assumes "apiClient b = Some c" and "Definition b = Some d" and "errorMsg b = ''''"
    and "apiClient nb = Some nc" and "Definition nb = Some nd" and "errorMsg nb = ''''"
  shows "(0 < k \<and> int k * Second < timeout
          \<and> (\<forall>i<k - 1. \<not> inState st (fetchReply c (log @ replicate i (fetchCall d)) d))
          \<and> inState st (fetchReply c (log @ replicate (k - 1) (fetchCall d)) d)
          \<longrightarrow> WaitUntilInStatus st timeout (b, log) = Return None (afterFetches b c d log k))
       \<and> ((\<forall>i\<le>ticks Second timeout.
              \<not> inState st (fetchReply c (log @ replicate i (fetchCall d)) d))
          \<longrightarrow> WaitUntilInStatus st timeout (b, log) =
                Return (Some ErrWaitTimeout)
                       (afterFetches b c d log (Suc (ticks Second timeout))))
       \<and> (0 < k \<and> int k * Second < timeout
          \<and> (\<forall>i<k - 1. \<not> hasReplicas r (fetchReply nc (nlog @ replicate i (fetchCall nd)) nd))
          \<and> hasReplicas r (fetchReply nc (nlog @ replicate (k - 1) (fetchCall nd)) nd)
          \<longrightarrow> WaitForReplicas u r timeout (Some nb, nlog) =
                Return (Receiver, None) (apfst Some (afterFetches nb nc nd nlog k)))
       \<and> ((\<forall>i\<le>ticks Second timeout.
              \<not> hasReplicas r (fetchReply nc (nlog @ replicate i (fetchCall nd)) nd))
          \<longrightarrow> WaitForReplicas u r timeout (Some nb, nlog) =
                Return (NilPtr, Some ErrWaitTimeout)
                       (apfst Some (afterFetches nb nc nd nlog (Suc (ticks Second timeout)))))"
proof (intro conjI impI)
  assume h: "0 < k \<and> int k * Second < timeout
          \<and> (\<forall>i<k - 1. \<not> inState st (fetchReply c (log @ replicate i (fetchCall d)) d))
          \<and> inState st (fetchReply c (log @ replicate (k - 1) (fetchCall d)) d)"
  then obtain j where k: "k = Suc j" by (cases k) auto
  have "j < Suc (ticks Second timeout)"
    using seconds_within [of k timeout] h by (simp add: k)
  then show "WaitUntilInStatus st timeout (b, log) = Return None (afterFetches b c d log k)"
    unfolding k using h by (intro WaitUntilInStatus_reached assms) (simp_all add: k)
next
  assume "\<forall>i\<le>ticks Second timeout.
            \<not> inState st (fetchReply c (log @ replicate i (fetchCall d)) d)"
  then show "WaitUntilInStatus st timeout (b, log) =
               Return (Some ErrWaitTimeout) (afterFetches b c d log (Suc (ticks Second timeout)))"
    by (intro WaitUntilInStatus_timeout assms) simp
next
  assume h: "0 < k \<and> int k * Second < timeout
          \<and> (\<forall>i<k - 1. \<not> hasReplicas r (fetchReply nc (nlog @ replicate i (fetchCall nd)) nd))
          \<and> hasReplicas r (fetchReply nc (nlog @ replicate (k - 1) (fetchCall nd)) nd)"
  then obtain j where k: "k = Suc j" by (cases k) auto
  have "j < Suc (ticks Second timeout)"
    using seconds_within [of k timeout] h by (simp add: k)
  then show "WaitForReplicas u r timeout (Some nb, nlog) =
               Return (Receiver, None) (apfst Some (afterFetches nb nc nd nlog k))"
    unfolding k using h by (intro WaitForReplicas_reached assms) (simp_all add: k)
next
  assume "\<forall>i\<le>ticks Second timeout.
            \<not> hasReplicas r (fetchReply nc (nlog @ replicate i (fetchCall nd)) nd)"
  then show "WaitForReplicas u r timeout (Some nb, nlog) =
               Return (NilPtr, Some ErrWaitTimeout)
                      (apfst Some (afterFetches nb nc nd nlog (Suc (ticks Second timeout))))"
    by (intro WaitForReplicas_timeout assms) simp
qed

lemma filter_fetches [simp]:
  "length (filter isGetCall (replicate i (GetCall name nsname))) = i"
  by simp

lemma all_less_Suc: "(\<forall>i<Suc n. P i) = ((\<forall>i<n. P i) \<and> P n)"
  by (auto simp: less_Suc_eq)

lemma all_le_Suc: "(\<forall>i\<le>Suc n. P i) = ((\<forall>i\<le>n. P i) \<and> P (Suc n))"
  by (auto simp: le_Suc_eq)

theorem status_wait_success_or_timeout_witness:
  "apiClient (hostBuilder lateHost) = Some lateHost
   \<and> Definition (hostBuilder lateHost) = Some (host StateNone)
   \<and> errorMsg (hostBuilder lateHost) = []
   \<and> apiClient (poolBuilder latePool) = Some latePool
   \<and> Definition (poolBuilder latePool) = Some (pool 0)
   \<and> errorMsg (poolBuilder latePool) = []
   \<and> (0::nat) < 3 \<and> int 3 * Second < 5 * Second
   \<and> WaitUntilInStatus StateProvisioned (5 * Second) (hostBuilder lateHost, []) =
       Return None
         ((hostBuilder lateHost)\<lparr>Object := Some (host StateProvisioned)\<rparr>,
          [GetCall ''host0'' ''ns0'', GetCall ''host0'' ''ns0'', GetCall ''host0'' ''ns0''])
   \<and> WaitUntilInStatus StateProvisioned (2 * Second) (hostBuilder neverHost, []) =
       Return (Some ErrWaitTimeout)
         ((hostBuilder neverHost)\<lparr>Object := Some (host StateProvisioning)\<rparr>,
          [GetCall ''host0'' ''ns0'', GetCall ''host0'' ''ns0'', GetCall ''host0'' ''ns0''])
   \<and> WaitForReplicas undefinedCrdText 3 (5 * Second) (Some (poolBuilder latePool), []) =
       Return (Receiver, None)
         (Some ((poolBuilder latePool)\<lparr>Object := Some (pool 3)\<rparr>),
          [GetCall ''pool0'' ''ns0'', GetCall ''pool0'' ''ns0'', GetCall ''pool0'' ''ns0''])
   \<and> WaitForReplicas undefinedCrdText 3 (2 * Second) (Some (poolBuilder neverPool), []) =
       Return (NilPtr, Some ErrWaitTimeout)
         (Some ((poolBuilder neverPool)\<lparr>Object := None\<rparr>),
          [GetCall ''pool0'' ''ns0'', GetCall ''pool0'' ''ns0'', GetCall ''pool0'' ''ns0''])"
proof -
  note late = status_wait_success_or_timeout
      [where c = lateHost and nc = latePool and st = StateProvisioned and r = 3
         and timeout = "5 * Second" and k = 3 and log = "[]" and nlog = "[]"
         and u = undefinedCrdText,
       OF hostBuilder_simps(1,2,3) poolBuilder_simps(1,2,3)]
  note never = status_wait_success_or_timeout
      [where c = neverHost and nc = neverPool and st = StateProvisioned and r = 3
         and timeout = "2 * Second" and log = "[]" and nlog = "[]"
         and u = undefinedCrdText,
       OF hostBuilder_simps(1,2,3) poolBuilder_simps(1,2,3)]
  have t: "int 3 * Second < 5 * Second"
    by (simp add: Second_def)
  have 1: "WaitUntilInStatus StateProvisioned (5 * Second) (hostBuilder lateHost, []) =
       Return None
         ((hostBuilder lateHost)\<lparr>Object := Some (host StateProvisioned)\<rparr>,
          [GetCall ''host0'' ''ns0'', GetCall ''host0'' ''ns0'', GetCall ''host0'' ''ns0''])"
    using late [THEN conjunct1] t
    by (simp add: all_less_Suc fixture_clients host_simps afterFetches_def
          numeral_3_eq_3 numeral_2_eq_2)
  have 2: "WaitUntilInStatus StateProvisioned (2 * Second) (hostBuilder neverHost, []) =
       Return (Some ErrWaitTimeout)
         ((hostBuilder neverHost)\<lparr>Object := Some (host StateProvisioning)\<rparr>,
          [GetCall ''host0'' ''ns0'', GetCall ''host0'' ''ns0'', GetCall ''host0'' ''ns0''])"
    using never [THEN conjunct2, THEN conjunct1]
    by (simp add: ticks_seconds all_le_Suc fixture_clients host_simps afterFetches_def
          numeral_2_eq_2)
  have 3: "WaitForReplicas undefinedCrdText 3 (5 * Second) (Some (poolBuilder latePool), []) =
       Return (Receiver, None)
         (Some ((poolBuilder latePool)\<lparr>Object := Some (pool 3)\<rparr>),
          [GetCall ''pool0'' ''ns0'', GetCall ''pool0'' ''ns0'', GetCall ''pool0'' ''ns0''])"
    using late [THEN conjunct2, THEN conjunct2, THEN conjunct1] t
    by (simp add: all_less_Suc fixture_clients pool_simps afterFetches_def
          numeral_3_eq_3 numeral_2_eq_2 unavailable_def)
  have 4: "WaitForReplicas undefinedCrdText 3 (2 * Second) (Some (poolBuilder neverPool), []) =
       Return (NilPtr, Some ErrWaitTimeout)
         (Some ((poolBuilder neverPool)\<lparr>Object := None\<rparr>),
          [GetCall ''pool0'' ''ns0'', GetCall ''pool0'' ''ns0'', GetCall ''pool0'' ''ns0''])"
    using never [THEN conjunct2, THEN conjunct2, THEN conjunct2]
    by (simp add: ticks_seconds all_le_Suc fixture_clients pool_simps afterFetches_def
          numeral_2_eq_2)
  show ?thesis
    by (intro conjI) (rule hostBuilder_simps poolBuilder_simps 1 2 3 4 t | simp)+
qed

section \<open>Which pointer the waits return\<close>

lemma poll_success_from_condition:
  "poll n cond s = Return None s' \<Longrightarrow> \<exists>s0. cond s0 = Return (True, None) s'"
proof (induction n arbitrary: s)
  case 0
  then show ?case by simp
next
  case (Suc n)
  show ?case
  proof (cases "cond s")
    case (Panic s1)
    with Suc.prems show ?thesis by simp
  next
    case (Return res s1)
    obtain fin err where res: "res = (fin, err)" by (cases res)
    show ?thesis
    proof (cases err)
      case (Some e)
      with Suc.prems Return res show ?thesis by (simp split: bool.splits)
    next
      case None
      show ?thesis
      proof (cases fin)
        case True
        with Suc.prems Return res None have "s1 = s'" by simp
        with Return res None True show ?thesis by auto
      next
        case False
        with Suc.prems Return res None have "poll n cond s1 = Return None s'" by simp
        then show ?thesis by (rule Suc.IH)
      qed
    qed
  qed
qed

lemma NodePoolBuilder_fetch_Return:
  "NodePoolBuilder_fetch u s = Return r s' \<Longrightarrow> fst s' \<noteq> None"
  by (auto simp: NodePoolBuilder_fetch_def split: outcome.splits prod.splits option.splits)

lemma WaitForReplicas_condition_Return:
  "WaitForReplicas_condition u r s = Return x s' \<Longrightarrow> fst s' \<noteq> None"
  by (auto simp: WaitForReplicas_condition_def split: outcome.splits sum.splits
      dest: NodePoolBuilder_fetch_Return)

lemma WaitForReplicas_pointer:
  assumes "fst (validate u receiver) = None"
    and "WaitForReplicas u r t (receiver, log) = Return (p, err) s'"
  shows "p = (if err = None then Receiver else NilPtr)"
proof -
  obtain r1 where v: "validate u receiver = (None, r1)"
    using assms(1) by (cases "validate u receiver") auto
  let ?w = "PollImmediate Second t (WaitForReplicas_condition u r) (r1, log)"
  show ?thesis
  proof (cases ?w)
    case (Panic s1)
    with assms(2) v show ?thesis by (simp add: WaitForReplicas_def)
  next
    case (Return e s1)
    show ?thesis
    proof (cases e)
      case (Some x)
      with assms(2) v Return show ?thesis by (auto simp: WaitForReplicas_def)
    next
      case None
      with Return have "poll (Suc (ticks Second t)) (WaitForReplicas_condition u r) (r1, log) =
          Return None s1"
        by (simp only: PollImmediate_def)
      then have "\<exists>s0. WaitForReplicas_condition u r s0 = Return (True, None) s1"
        by (rule poll_success_from_condition)
      then have "fst s1 \<noteq> None"
        by (auto dest: WaitForReplicas_condition_Return)
      then have "self (fst s1) = Receiver" by (cases "fst s1") auto
      with assms(2) v Return None show ?thesis by (auto simp: WaitForReplicas_def)
    qed
  qed
qed

lemma Builder_Delete_pointer:
  "Builder_Delete s = Return (p, err) s' \<Longrightarrow> p = Receiver"
  by (auto simp: Builder_Delete_def split: outcome.splits bool.splits prod.splits
      option.splits)

lemma DeleteAndWaitUntilDeleted_pointer:
  assumes "DeleteAndWaitUntilDeleted t s = Return (q, err) s'"
  shows "(q = NilPtr) = (\<exists>s1. Builder_Delete s = Return (Receiver, None) s1)"
proof (cases "Builder_Delete s")
  case (Panic s1)
  with assms show ?thesis by (simp add: DeleteAndWaitUntilDeleted_def)
next
  case (Return res s1)
  obtain p e where res: "res = (p, e)" by (cases res)
  have p: "p = Receiver"
    using Return res by (auto dest: Builder_Delete_pointer)
  show ?thesis
  proof (cases e)
    case None
    with assms Return res p show ?thesis
      by (auto simp: DeleteAndWaitUntilDeleted_def split: outcome.splits)
  next
    case (Some x)
    with assms Return res p show ?thesis
      by (auto simp: DeleteAndWaitUntilDeleted_def)
  qed
qed

text \<open>
  C10, as amended. When \<open>WaitForReplicas\<close> has passed validation and returns, the builder
  it returns is nil exactly when it returns an error (the poll ended in the timeout or in
  an error) and the receiver otherwise. When \<open>DeleteAndWaitUntilDeleted\<close> returns, the
  builder it returns is nil exactly when its \<open>Delete\<close> step succeeded, whatever the wait
  that follows returns; so it is nil on success, and also when the wait fails.
\<close>

theorem nil_builder_after_wait:
  assumes "fst (validate u receiver) = None"
    and "WaitForReplicas u r t (receiver, nlog) = Return (p, err) ns'"
    and "DeleteAndWaitUntilDeleted t' s = Return (q, err') s'"
  shows "p = (if err = None then Receiver else NilPtr)
       \<and> (q = NilPtr) = (\<exists>s1. Builder_Delete s = Return (Receiver, None) s1)
       \<and> (err' = None \<longrightarrow> q = NilPtr)"
proof -
  have "q = NilPtr" if "err' = None"
    using assms(3) that
    by (auto simp: DeleteAndWaitUntilDeleted_def
        split: outcome.splits prod.splits option.splits ptr.splits)
  then show ?thesis
    using WaitForReplicas_pointer [OF assms(1,2)] DeleteAndWaitUntilDeleted_pointer [OF assms(3)]
    by simp
qed

lemma DeleteAndWaitUntilDeleted_goneHost:
  "DeleteAndWaitUntilDeleted (5 * Second) (hostBuilder goneHost, []) =
     Return (NilPtr, None)
       ((hostBuilder goneHost)\<lparr>Object := None\<rparr>,
        [GetCall ''host0'' ''ns0'', DeleteCall (host StateNone), GetCall ''host0'' ''ns0''])"
  by (simp add: DeleteAndWaitUntilDeleted_def Builder_Delete_ok [where d = "host StateNone"]
        WaitUntilDeleted_def Poll_def ticks_seconds poll_numeral hostBuilder_simps
        WaitUntilDeleted_condition_ok [where d = "host StateNone"] fixture_clients host_simps
        notFound_def)

lemma WaitForReplicas_neverPool:
  "WaitForReplicas undefinedCrdText 3 (2 * Second) (Some (poolBuilder neverPool), []) =
     Return (NilPtr, Some ErrWaitTimeout)
       (Some ((poolBuilder neverPool)\<lparr>Object := None\<rparr>),
        [GetCall ''pool0'' ''ns0'', GetCall ''pool0'' ''ns0'', GetCall ''pool0'' ''ns0''])"
  by (simp add: WaitForReplicas_def PollImmediate_def ticks_seconds poll_numeral
        poolBuilder_simps validate_clean [where d = "pool 0"]
        WaitForReplicas_condition_ok [where d = "pool 0"] fixture_clients pool_simps)

theorem nil_builder_after_wait_witness:
  "fst (validate undefinedCrdText (Some (poolBuilder neverPool))) = None
   \<and> WaitForReplicas undefinedCrdText 3 (2 * Second) (Some (poolBuilder neverPool), []) =
       Return (NilPtr, Some ErrWaitTimeout)
         (Some ((poolBuilder neverPool)\<lparr>Object := None\<rparr>),
          [GetCall ''pool0'' ''ns0'', GetCall ''pool0'' ''ns0'', GetCall ''pool0'' ''ns0''])
   \<and> DeleteAndWaitUntilDeleted (5 * Second) (hostBuilder goneHost, []) =
       Return (NilPtr, None)
         ((hostBuilder goneHost)\<lparr>Object := None\<rparr>,
          [GetCall ''host0'' ''ns0'', DeleteCall (host StateNone), GetCall ''host0'' ''ns0''])
   \<and> (\<exists>s1. Builder_Delete (hostBuilder goneHost, []) = Return (Receiver, None) s1)"
proof -
  have v: "fst (validate undefinedCrdText (Some (poolBuilder neverPool))) = None"
    by (simp add: validate_clean [where d = "pool 0"] poolBuilder_simps)
  from nil_builder_after_wait
         [OF v WaitForReplicas_neverPool DeleteAndWaitUntilDeleted_goneHost]
  have "\<exists>s1. Builder_Delete (hostBuilder goneHost, []) = Return (Receiver, None) s1"
    by simp
  with v WaitForReplicas_neverPool DeleteAndWaitUntilDeleted_goneHost show ?thesis
    by (intro conjI)
qed

text \<open>
  The nil builder is not reserved to success: here the delete goes through, the first
  fetch of the wait fails with an error that is not "not found", and the call returns
  that error together with a nil builder.
\<close>

theorem DeleteAndWaitUntilDeleted_nil_with_error:
  "DeleteAndWaitUntilDeleted (5 * Second) (hostBuilder brokenHost, []) =
     Return (NilPtr, Some unavailable)
       ((hostBuilder brokenHost)\<lparr>Object := None\<rparr>,
        [GetCall ''host0'' ''ns0'', DeleteCall (host StateNone), GetCall ''host0'' ''ns0''])"
  by (simp add: DeleteAndWaitUntilDeleted_def Builder_Delete_ok [where d = "host StateNone"]
        WaitUntilDeleted_def Poll_def ticks_seconds poll_numeral hostBuilder_simps
        WaitUntilDeleted_condition_ok [where d = "host StateNone"] fixture_clients host_simps
        unavailable_def)

section \<open>A builder with an error state\<close>

lemma validate_afterValidate:
  "validate u (Some b) =
     ((if errorMsg (afterValidate u b) \<noteq> [] then Some (Errorf (errorMsg (afterValidate u b)))
       else None),
      Some (afterValidate u b))"
  by (cases "apiClient b"; cases "Definition b") (simp_all add: validate_def afterValidate_def)

lemma afterValidate_error:
  "errorMsg b \<noteq> [] \<Longrightarrow> u ''NodePool'' \<noteq> [] \<Longrightarrow> errorMsg (afterValidate u b) \<noteq> []"
  by (simp add: afterValidate_def)

lemma afterValidate_clean:
  "Definition b = Some d \<Longrightarrow> apiClient b = Some c \<Longrightarrow> afterValidate u b = b"
  by (simp add: afterValidate_def)

lemma validate_error:
  "errorMsg b \<noteq> [] \<Longrightarrow> u ''NodePool'' \<noteq> [] \<Longrightarrow>
   validate u (Some b) = (Some (Errorf (errorMsg (afterValidate u b))), Some (afterValidate u b))"
  by (simp add: validate_afterValidate afterValidate_error)

lemma Builder_Create_error:
  "errorMsg b \<noteq> [] \<Longrightarrow>
   Builder_Create (b, log) = Return (NilPtr, Some (Errorf (errorMsg b))) (b, log)"
  by (simp add: Builder_Create_def)

lemma WaitUntilInStatus_error:
  "errorMsg b \<noteq> [] \<Longrightarrow>
   WaitUntilInStatus st t (b, log) = Return (Some (Errorf (errorMsg b))) (b, log)"
  by (simp add: WaitUntilInStatus_def)

lemma CreateAndWaitUntilProvisioned_error:
  "errorMsg b \<noteq> [] \<Longrightarrow>
   CreateAndWaitUntilProvisioned t (b, log) =
     Return (NilPtr, Some (Errorf (errorMsg b))) (b, log)"
  by (simp add: CreateAndWaitUntilProvisioned_def Builder_Create_error)

lemma NodePoolBuilder_Get_error:
  "errorMsg b \<noteq> [] \<Longrightarrow> u ''NodePool'' \<noteq> [] \<Longrightarrow>
   NodePoolBuilder_Get u (Some b, log) =
     Return (Inl (Errorf (errorMsg (afterValidate u b)))) (Some (afterValidate u b), log)"
  by (simp add: NodePoolBuilder_Get_def validate_error)

lemma WaitForReplicas_error:
  "errorMsg b \<noteq> [] \<Longrightarrow> u ''NodePool'' \<noteq> [] \<Longrightarrow>
   WaitForReplicas u r t (Some b, log) =
     Return (Receiver, Some (Errorf (errorMsg (afterValidate u b)))) (Some (afterValidate u b), log)"
  by (simp add: WaitForReplicas_def validate_error)

lemma NodePoolBuilder_Exists_error:
  "errorMsg b \<noteq> [] \<Longrightarrow> u ''NodePool'' \<noteq> [] \<Longrightarrow>
   NodePoolBuilder_Exists u (Some b, log) = Return False (Some (afterValidate u b), log)"
  by (simp add: NodePoolBuilder_Exists_def validate_error)

lemma Error_Errorf: "CHR ''%'' \<notin> set m \<Longrightarrow> Error (Errorf m) = Some m"
  by simp

text \<open>
  C3, as amended. On a bare-metal-host builder whose error state is not empty, \<open>Create\<close>,
  \<open>CreateAndWaitUntilProvisioned\<close> and \<open>WaitUntilInStatus\<close> (with the four waits defined
  through it) return, without a call to the cluster and without a change of the builder,
  the error that \<open>fmt.Errorf\<close> makes of the stored error state. On a node-pool builder
  whose error state is not empty, \<open>Get\<close> and \<open>WaitForReplicas\<close> return, without a call to
  the cluster, the error that \<open>fmt.Errorf\<close> makes of the error state as \<open>validate\<close>
  leaves it (the stored one when definition and client are present), and \<open>Exists\<close>
  returns false. The message of such an error is the error state itself when that
  contains no \<open>%\<close>. (\<open>Delete\<close>, \<open>Get\<close>, \<open>Exists\<close>, \<open>WaitUntilDeleted\<close> and
  \<open>DeleteAndWaitUntilDeleted\<close> of the bare-metal host are not part of the statement.)
\<close>

theorem error_state_short_circuits:
  assumes "errorMsg b \<noteq> ''''" and "errorMsg nb \<noteq> ''''" and "undefinedCrd ''NodePool'' \<noteq> ''''"
  shows "Builder_Create (b, log) = Return (NilPtr, Some (Errorf (errorMsg b))) (b, log)
       \<and> CreateAndWaitUntilProvisioned t (b, log) =
           Return (NilPtr, Some (Errorf (errorMsg b))) (b, log)
       \<and> WaitUntilInStatus st t (b, log) = Return (Some (Errorf (errorMsg b))) (b, log)
       \<and> WaitUntilProvisioned t (b, log) = Return (Some (Errorf (errorMsg b))) (b, log)
       \<and> WaitUntilProvisioning t (b, log) = Return (Some (Errorf (errorMsg b))) (b, log)
       \<and> WaitUntilReady t (b, log) = Return (Some (Errorf (errorMsg b))) (b, log)
       \<and> WaitUntilAvailable t (b, log) = Return (Some (Errorf (errorMsg b))) (b, log)
       \<and> (CHR ''%'' \<notin> set (errorMsg b) \<longrightarrow> Error (Errorf (errorMsg b)) = Some (errorMsg b))
       \<and> NodePoolBuilder_Get undefinedCrd (Some nb, nlog) =
           Return (Inl (Errorf (errorMsg (afterValidate undefinedCrd nb))))
                  (Some (afterValidate undefinedCrd nb), nlog)
       \<and> WaitForReplicas undefinedCrd r t (Some nb, nlog) =
           Return (Receiver, Some (Errorf (errorMsg (afterValidate undefinedCrd nb))))
                  (Some (afterValidate undefinedCrd nb), nlog)
       \<and> NodePoolBuilder_Exists undefinedCrd (Some nb, nlog) =
           Return False (Some (afterValidate undefinedCrd nb), nlog)
       \<and> errorMsg (afterValidate undefinedCrd nb) \<noteq> ''''
       \<and> (apiClient nb \<noteq> None \<and> Definition nb \<noteq> None \<longrightarrow> afterValidate undefinedCrd nb = nb)
       \<and> (CHR ''%'' \<notin> set (errorMsg (afterValidate undefinedCrd nb))
            \<longrightarrow> Error (Errorf (errorMsg (afterValidate undefinedCrd nb))) =
                Some (errorMsg (afterValidate undefinedCrd nb)))"
  using assms
  by (simp add: Builder_Create_error CreateAndWaitUntilProvisioned_error WaitUntilInStatus_error
        WaitUntilProvisioned_def WaitUntilProvisioning_def WaitUntilReady_def
        WaitUntilAvailable_def NodePoolBuilder_Get_error WaitForReplicas_error
        NodePoolBuilder_Exists_error afterValidate_error)
     (auto simp: afterValidate_def)

lemma namelessHost_simps:
  "apiClient (namelessHost c) = Some c"
  "Definition (namelessHost c) =
     Some ((host StateNone)\<lparr>ObjectMeta := \<lparr>Name = [], Namespace = ''ns0''\<rparr>\<rparr>)"
  "errorMsg (namelessHost c) = ''BMH 'name' cannot be empty''"
  "Object (namelessHost c) = None"
  by (simp_all add: namelessHost_def NewBuilder_def host_def)

lemma namelessPool_simps:
  "apiClient (namelessPool c) = Some c"
  "Definition (namelessPool c) =
     Some ((pool 0)\<lparr>ObjectMeta := \<lparr>Name = [], Namespace = ''ns0''\<rparr>\<rparr>)"
  "errorMsg (namelessPool c) = ''nodepool 'name' cannot be empty''"
  "Object (namelessPool c) = None"
  by (simp_all add: namelessPool_def NewNodePoolBuilder_def pool_def)

lemma clientlessPool_simps:
  "apiClient clientlessPool = None"
  "Definition clientlessPool =
     Some ((pool 0)\<lparr>ObjectMeta := \<lparr>Name = [], Namespace = ''ns0''\<rparr>\<rparr>)"
  "errorMsg clientlessPool = ''nodepool 'name' cannot be empty''"
  "Object clientlessPool = None"
  by (simp_all add: clientlessPool_def NewNodePoolBuilder_def pool_def)

lemma absent_simps:
  "client_Get absent log n ns = Inl notFound"
  "client_Create absent log obj = None"
  "client_Delete absent log obj = None"
  by (simp_all add: absent_def scripted_simps)

theorem error_state_short_circuits_witness:
  "errorMsg (namelessHost absent) \<noteq> ''''
   \<and> errorMsg (namelessPool absent) \<noteq> ''''
   \<and> undefinedCrdText ''NodePool'' \<noteq> ''''
   \<and> Builder_Create (namelessHost absent, []) =
       Return (NilPtr, Some (Errorf ''BMH 'name' cannot be empty'')) (namelessHost absent, [])
   \<and> WaitUntilInStatus StateReady (5 * Second) (namelessHost absent, []) =
       Return (Some (Errorf ''BMH 'name' cannot be empty'')) (namelessHost absent, [])
   \<and> Error (Errorf ''BMH 'name' cannot be empty'') = Some ''BMH 'name' cannot be empty''
   \<and> NodePoolBuilder_Get undefinedCrdText (Some (namelessPool absent), []) =
       Return (Inl (Errorf ''nodepool 'name' cannot be empty'')) (Some (namelessPool absent), [])
   \<and> WaitForReplicas undefinedCrdText 3 (5 * Second) (Some (namelessPool absent), []) =
       Return (Receiver, Some (Errorf ''nodepool 'name' cannot be empty''))
              (Some (namelessPool absent), [])
   \<and> NodePoolBuilder_Exists undefinedCrdText (Some (namelessPool absent), []) =
       Return False (Some (namelessPool absent), [])"
proof -
  have h: "errorMsg (namelessHost absent) \<noteq> ''''" "errorMsg (namelessPool absent) \<noteq> ''''"
    "undefinedCrdText ''NodePool'' \<noteq> ''''"
    by (simp_all add: namelessHost_simps namelessPool_simps undefinedCrdText_def)
  have a: "afterValidate undefinedCrdText (namelessPool absent) = namelessPool absent"
    by (simp add: afterValidate_clean namelessPool_simps)
  show ?thesis
    using error_state_short_circuits
            [where b = "namelessHost absent" and nb = "namelessPool absent"
               and undefinedCrd = undefinedCrdText and log = "[]" and nlog = "[]"
               and t = "5 * Second" and st = StateReady and r = 3, OF h]
    by (simp add: a namelessHost_simps(3) namelessPool_simps(3) undefinedCrdText_def)
qed

text \<open>
  The statement of C3 itself fails: \<open>Delete\<close> on a bare-metal-host builder with an error
  state fetches from the cluster and answers with an error about existence, and \<open>Exists\<close>
  on a node-pool builder with an error state answers with the boolean false, not with an
  error.
\<close>

theorem Delete_ignores_error_state:
  "errorMsg (namelessHost absent) = ''BMH 'name' cannot be empty''
   \<and> Builder_Delete (namelessHost absent, []) =
       Return (Receiver, Some (Errorf ''bmh cannot be deleted because it does not exist''))
              ((namelessHost absent)\<lparr>Object := None\<rparr>, [GetCall '''' ''ns0''])
   \<and> errorMsg (namelessPool absent) = ''nodepool 'name' cannot be empty''
   \<and> NodePoolBuilder_Exists undefinedCrdText (Some (namelessPool absent), []) =
       Return False (Some (namelessPool absent), [])"
proof -
  have a: "afterValidate undefinedCrdText (namelessPool absent) = namelessPool absent"
    by (simp add: afterValidate_clean namelessPool_simps)
  have d: "Builder_Delete (namelessHost absent, []) =
       Return (Receiver, Some (Errorf ''bmh cannot be deleted because it does not exist''))
              ((namelessHost absent)\<lparr>Object := None\<rparr>, [GetCall '''' ''ns0''])"
    by (simp add: Builder_Delete_ok [OF namelessHost_simps(1,2)] absent_simps notFound_def)
  have e: "NodePoolBuilder_Exists undefinedCrdText (Some (namelessPool absent), []) =
       Return False (Some (namelessPool absent), [])"
    by (simp add: NodePoolBuilder_Exists_error namelessPool_simps(3) undefinedCrdText_def a)
  from d e show ?thesis
    by (simp add: namelessHost_simps(3) namelessPool_simps(3))
qed

section \<open>Constructors with an empty required argument\<close>

lemma NewBuilder_fields:
  "apiClient (NewBuilder c name nsname bmcAddress bmcSecretName bootMacAddress bootMode) = c"
  "Definition (NewBuilder c name nsname bmcAddress bmcSecretName bootMacAddress bootMode) \<noteq> None"
  "Definition (NewBuilder c name nsname bmcAddress bmcSecretName bootMacAddress bootMode) =
     Some \<lparr>ObjectMeta = \<lparr>Name = name, Namespace = nsname\<rparr>,
           Spec = \<lparr>BMC = \<lparr>Address = bmcAddress, CredentialsName = bmcSecretName,
                          DisableCertificateVerification = True\<rparr>,
                   BootMode = bootMode,
                   BootMACAddress = bootMacAddress,
                   Online = True,
                   ExternallyProvisioned = False,
                   RootDeviceHints = None\<rparr>,
           Status = \<lparr>Provisioning = \<lparr>State = StateNone\<rparr>\<rparr>\<rparr>"
  "Object (NewBuilder c name nsname bmcAddress bmcSecretName bootMacAddress bootMode) = None"
  unfolding NewBuilder_def Let_def by simp_all

lemma NewNodePoolBuilder_fields:
  "apiClient (NewNodePoolBuilder c name nsname clusterName agentNamespace release replicas) = c"
  "Definition (NewNodePoolBuilder c name nsname clusterName agentNamespace release replicas)
     \<noteq> None"
  "Definition (NewNodePoolBuilder c name nsname clusterName agentNamespace release replicas) =
     Some \<lparr>ObjectMeta = \<lparr>Name = name, Namespace = nsname\<rparr>,
           Spec = \<lparr>ClusterName = clusterName,
                   Release = release,
                   Replicas = Some replicas,
                   Platform = \<lparr>Type = AgentPlatform\<rparr>\<rparr>,
           Status = \<lparr>StatusReplicas = 0\<rparr>\<rparr>"
  "Object (NewNodePoolBuilder c name nsname clusterName agentNamespace release replicas) = None"
  unfolding NewNodePoolBuilder_def Let_def by simp_all

lemma NewBuilder_message:
  assumes "name = '''' \<or> nsname = '''' \<or> bmcAddress = '''' \<or> bmcSecretName = ''''
           \<or> bootMacAddress = '''' \<or> bootMode = ''''"
  shows "errorMsg (NewBuilder c name nsname bmcAddress bmcSecretName bootMacAddress bootMode)
           \<noteq> ''''"
    and "(True, errorMsg (NewBuilder c name nsname bmcAddress bmcSecretName bootMacAddress
                            bootMode))
           \<in> set (NewBuilder_checks name nsname bmcAddress bmcSecretName bootMacAddress
                     bootMode)"
  using assms unfolding NewBuilder_errorMsg NewBuilder_checks_def by auto

lemma NewBuilder_message_plain:
  "CHR ''%'' \<notin> set (errorMsg (NewBuilder c name nsname bmcAddress bmcSecretName
                                   bootMacAddress bootMode))"
  unfolding NewBuilder_errorMsg by simp

lemma NewNodePoolBuilder_message:
  assumes "name = '''' \<or> nsname = '''' \<or> clusterName = '''' \<or> release = ''''"
  shows "errorMsg (NewNodePoolBuilder c name nsname clusterName agentNamespace release replicas)
           \<noteq> ''''"
    and "(True, errorMsg (NewNodePoolBuilder c name nsname clusterName agentNamespace release
                            replicas))
           \<in> set (NewNodePoolBuilder_checks name nsname clusterName release)"
  using assms unfolding NewNodePoolBuilder_errorMsg NewNodePoolBuilder_checks_def by auto

lemma NewNodePoolBuilder_message_plain:
  "CHR ''%'' \<notin> set (errorMsg (NewNodePoolBuilder c name nsname clusterName agentNamespace
                                   release replicas))"
  unfolding NewNodePoolBuilder_errorMsg by simp

lemma afterValidate_NewNodePoolBuilder:
  "afterValidate u (NewNodePoolBuilder (Some c) name nsname clusterName agentNamespace release
                      replicas) =
     NewNodePoolBuilder (Some c) name nsname clusterName agentNamespace release replicas"
  using NewNodePoolBuilder_fields(1,2) [of "Some c" name nsname clusterName agentNamespace release
          replicas]
  by (auto simp: afterValidate_def)

lemma bootModelessHost_simps:
  "apiClient (bootModelessHost c) = Some c"
  "errorMsg (bootModelessHost c) = ''Not acceptable 'bootMode' value''"
  "Object (bootModelessHost c) = None"
  by (simp_all add: bootModelessHost_def NewBuilder_def)

text \<open>
  C5, as amended. When one of the required strings of a constructor is empty (\<open>name\<close>,
  \<open>nsname\<close>, \<open>bmcAddress\<close>, \<open>bmcSecretName\<close>, \<open>bootMacAddress\<close>, \<open>bootMode\<close> for
  \<open>NewBuilder\<close>; \<open>name\<close>, \<open>nsname\<close>, \<open>clusterName\<close>, \<open>release\<close> for
  \<open>NewNodePoolBuilder\<close>), the constructor still returns a builder: its definition is the
  object made of the arguments as they were given, its observed object is nil, and its
  error state is the non-empty message of one of the failed checks. A following
  \<open>Create\<close>, \<open>CreateAndWaitUntilProvisioned\<close>, \<open>WaitUntilInStatus\<close>,
  \<open>WaitUntilProvisioned\<close>, \<open>WaitUntilProvisioning\<close>, \<open>WaitUntilReady\<close> or
  \<open>WaitUntilAvailable\<close> on the bare-metal-host builder, or \<open>Get\<close> or \<open>WaitForReplicas\<close>
  on a node-pool builder that was given a client, returns without a call to the cluster
  and without a change of the builder an error whose message is exactly that error state.
\<close>

theorem constructor_defers_error:
  fixes client :: "BareMetalHost Settings option" and nc :: "NodePool Settings"
    and name nsname bmcAddress bmcSecretName bootMacAddress bootMode :: string
    and pname pnsname clusterName agentNamespace release :: string
    and replicas :: "32 word"
  defines "b \<equiv> NewBuilder client name nsname bmcAddress bmcSecretName bootMacAddress bootMode"
    and "nb \<equiv> NewNodePoolBuilder (Some nc) pname pnsname clusterName agentNamespace release
                 replicas"
  assumes "name = '''' \<or> nsname = '''' \<or> bmcAddress = '''' \<or> bmcSecretName = ''''
           \<or> bootMacAddress = '''' \<or> bootMode = ''''"
    and "pname = '''' \<or> pnsname = '''' \<or> clusterName = '''' \<or> release = ''''"
  shows "Definition b =
           Some \<lparr>ObjectMeta = \<lparr>Name = name, Namespace = nsname\<rparr>,
                 Spec = \<lparr>BMC = \<lparr>Address = bmcAddress, CredentialsName = bmcSecretName,
                                DisableCertificateVerification = True\<rparr>,
                         BootMode = bootMode,
                         BootMACAddress = bootMacAddress,
                         Online = True,
                         ExternallyProvisioned = False,
                         RootDeviceHints = None\<rparr>,
                 Status = \<lparr>Provisioning = \<lparr>State = StateNone\<rparr>\<rparr>\<rparr>
       \<and> Object b = None
       \<and> apiClient b = client
       \<and> errorMsg b \<noteq> ''''
       \<and> (True, errorMsg b)
           \<in> set (NewBuilder_checks name nsname bmcAddress bmcSecretName bootMacAddress bootMode)
       \<and> Builder_Create (b, log) = Return (NilPtr, Some (Errorf (errorMsg b))) (b, log)
       \<and> CreateAndWaitUntilProvisioned t (b, log) =
           Return (NilPtr, Some (Errorf (errorMsg b))) (b, log)
       \<and> WaitUntilInStatus st t (b, log) = Return (Some (Errorf (errorMsg b))) (b, log)
       \<and> WaitUntilProvisioned t (b, log) = Return (Some (Errorf (errorMsg b))) (b, log)
       \<and> WaitUntilProvisioning t (b, log) = Return (Some (Errorf (errorMsg b))) (b, log)
       \<and> WaitUntilReady t (b, log) = Return (Some (Errorf (errorMsg b))) (b, log)
       \<and> WaitUntilAvailable t (b, log) = Return (Some (Errorf (errorMsg b))) (b, log)
       \<and> Error (Errorf (errorMsg b)) = Some (errorMsg b)
       \<and> Definition nb =
           Some \<lparr>ObjectMeta = \<lparr>Name = pname, Namespace = pnsname\<rparr>,
                 Spec = \<lparr>ClusterName = clusterName,
                         Release = release,
                         Replicas = Some replicas,
                         Platform = \<lparr>Type = AgentPlatform\<rparr>\<rparr>,
                 Status = \<lparr>StatusReplicas = 0\<rparr>\<rparr>
       \<and> Object nb = None
       \<and> apiClient nb = Some nc
       \<and> errorMsg nb \<noteq> ''''
       \<and> (True, errorMsg nb) \<in> set (NewNodePoolBuilder_checks pname pnsname clusterName release)
       \<and> NodePoolBuilder_Get u (Some nb, nlog) =
           Return (Inl (Errorf (errorMsg nb))) (Some nb, nlog)
       \<and> WaitForReplicas u r t (Some nb, nlog) =
           Return (Receiver, Some (Errorf (errorMsg nb))) (Some nb, nlog)
       \<and> Error (Errorf (errorMsg nb)) = Some (errorMsg nb)"
proof -
  have b: "errorMsg b \<noteq> ''''"
    "(True, errorMsg b)
       \<in> set (NewBuilder_checks name nsname bmcAddress bmcSecretName bootMacAddress bootMode)"
    unfolding b_def using assms(3) by (rule NewBuilder_message)+
  have nb: "errorMsg nb \<noteq> ''''"
    "(True, errorMsg nb) \<in> set (NewNodePoolBuilder_checks pname pnsname clusterName release)"
    unfolding nb_def using assms(4) by (rule NewNodePoolBuilder_message)+
  have v: "validate u (Some nb) = (Some (Errorf (errorMsg nb)), Some nb)"
    using nb(1) by (simp add: validate_afterValidate nb_def afterValidate_NewNodePoolBuilder)
  have plain: "Error (Errorf (errorMsg b)) = Some (errorMsg b)"
    "Error (Errorf (errorMsg nb)) = Some (errorMsg nb)"
    unfolding b_def nb_def
    by (rule Error_Errorf [OF NewBuilder_message_plain]
             Error_Errorf [OF NewNodePoolBuilder_message_plain])+
  have fields: "Definition b =
           Some \<lparr>ObjectMeta = \<lparr>Name = name, Namespace = nsname\<rparr>,
                 Spec = \<lparr>BMC = \<lparr>Address = bmcAddress, CredentialsName = bmcSecretName,
                                DisableCertificateVerification = True\<rparr>,
                         BootMode = bootMode,
                         BootMACAddress = bootMacAddress,
                         Online = True,
                         ExternallyProvisioned = False,
                         RootDeviceHints = None\<rparr>,
                 Status = \<lparr>Provisioning = \<lparr>State = StateNone\<rparr>\<rparr>\<rparr>"
    "Object b = None" "apiClient b = client"
    unfolding b_def by (rule NewBuilder_fields)+
  have nfields: "Definition nb =
           Some \<lparr>ObjectMeta = \<lparr>Name = pname, Namespace = pnsname\<rparr>,
                 Spec = \<lparr>ClusterName = clusterName,
                         Release = release,
                         Replicas = Some replicas,
                         Platform = \<lparr>Type = AgentPlatform\<rparr>\<rparr>,
                 Status = \<lparr>StatusReplicas = 0\<rparr>\<rparr>"
    "Object nb = None" "apiClient nb = Some nc"
    unfolding nb_def by (rule NewNodePoolBuilder_fields)+
  have ops: "Builder_Create (b, log) = Return (NilPtr, Some (Errorf (errorMsg b))) (b, log)"
    "CreateAndWaitUntilProvisioned t (b, log) =
       Return (NilPtr, Some (Errorf (errorMsg b))) (b, log)"
    "WaitUntilInStatus st t (b, log) = Return (Some (Errorf (errorMsg b))) (b, log)"
    "WaitUntilProvisioned t (b, log) = Return (Some (Errorf (errorMsg b))) (b, log)"
    "WaitUntilProvisioning t (b, log) = Return (Some (Errorf (errorMsg b))) (b, log)"
    "WaitUntilReady t (b, log) = Return (Some (Errorf (errorMsg b))) (b, log)"
    "WaitUntilAvailable t (b, log) = Return (Some (Errorf (errorMsg b))) (b, log)"
    using b(1) by (simp_all add: Builder_Create_error CreateAndWaitUntilProvisioned_error
        WaitUntilInStatus_error WaitUntilProvisioned_def WaitUntilProvisioning_def
        WaitUntilReady_def WaitUntilAvailable_def)
  have nops:
    "NodePoolBuilder_Get u (Some nb, nlog) = Return (Inl (Errorf (errorMsg nb))) (Some nb, nlog)"
    "WaitForReplicas u r t (Some nb, nlog) =
       Return (Receiver, Some (Errorf (errorMsg nb))) (Some nb, nlog)"
    by (simp_all add: NodePoolBuilder_Get_def WaitForReplicas_def v)
  from b nb plain fields nfields ops nops show ?thesis
    by (intro conjI)
qed

theorem constructor_defers_error_witness:
  "('''' = '''' \<or> ''ns0'' = '''' \<or> ''addr'' = '''' \<or> ''secret'' = '''' \<or> ''mac'' = ''''
      \<or> ''UEFI'' = '''')
   \<and> ('''' = '''' \<or> ''ns0'' = '''' \<or> ''cluster0'' = '''' \<or> ''release0'' = '''')
   \<and> errorMsg (namelessHost absent) = ''BMH 'name' cannot be empty''
   \<and> Builder_Create (namelessHost absent, []) =
       Return (NilPtr, Some (Errorf ''BMH 'name' cannot be empty'')) (namelessHost absent, [])
   \<and> Error (Errorf ''BMH 'name' cannot be empty'') = Some ''BMH 'name' cannot be empty''
   \<and> errorMsg (namelessPool absent) = ''nodepool 'name' cannot be empty''
   \<and> NodePoolBuilder_Get undefinedCrdText (Some (namelessPool absent), []) =
       Return (Inl (Errorf ''nodepool 'name' cannot be empty'')) (Some (namelessPool absent), [])
   \<and> Error (Errorf ''nodepool 'name' cannot be empty'') = Some ''nodepool 'name' cannot be empty''
   \<and> (''host0'' = '''' \<or> ''ns0'' = '''' \<or> ''addr'' = '''' \<or> ''secret'' = '''' \<or> ''mac'' = ''''
      \<or> '''' = '''')
   \<and> errorMsg (bootModelessHost absent) = ''Not acceptable 'bootMode' value''
   \<and> Definition (bootModelessHost absent) =
       Some ((host StateNone)\<lparr>Spec := (Spec (host StateNone))\<lparr>BootMode := ''''\<rparr>\<rparr>)
   \<and> Builder_Create (bootModelessHost absent, []) =
       Return (NilPtr, Some (Errorf ''Not acceptable 'bootMode' value''))
              (bootModelessHost absent, [])
   \<and> WaitUntilReady (5 * Second) (bootModelessHost absent, []) =
       Return (Some (Errorf ''Not acceptable 'bootMode' value'')) (bootModelessHost absent, [])
   \<and> Error (Errorf ''Not acceptable 'bootMode' value'') =
       Some ''Not acceptable 'bootMode' value''"
proof -
  have h: "'''' = '''' \<or> ''ns0'' = '''' \<or> ''addr'' = '''' \<or> ''secret'' = '''' \<or> ''mac'' = ''''
             \<or> ''UEFI'' = ''''"
    "'''' = '''' \<or> ''ns0'' = '''' \<or> ''cluster0'' = '''' \<or> ''release0'' = ''''"
    by simp_all
  have h2: "''host0'' = '''' \<or> ''ns0'' = '''' \<or> ''addr'' = '''' \<or> ''secret'' = ''''
              \<or> ''mac'' = '''' \<or> '''' = ''''"
    by simp
  note T1 = constructor_defers_error
            [where client = "Some absent" and nc = absent and bootMode = "''UEFI''"
               and agentNamespace = "''agents''" and replicas = 3 and u = undefinedCrdText
               and log = "[]" and nlog = "[]" and st = StateReady and t = "5 * Second" and r = 3,
             OF h]
  note T2 = constructor_defers_error
            [where client = "Some absent" and nc = absent and bootMode = "''''"
               and agentNamespace = "''agents''" and replicas = 3 and u = undefinedCrdText
               and log = "[]" and nlog = "[]" and st = StateReady and t = "5 * Second" and r = 3,
             OF h2 h(2)]
  have 1: "errorMsg (namelessHost absent) = ''BMH 'name' cannot be empty''
   \<and> Builder_Create (namelessHost absent, []) =
       Return (NilPtr, Some (Errorf ''BMH 'name' cannot be empty'')) (namelessHost absent, [])
   \<and> Error (Errorf ''BMH 'name' cannot be empty'') = Some ''BMH 'name' cannot be empty''
   \<and> errorMsg (namelessPool absent) = ''nodepool 'name' cannot be empty''
   \<and> NodePoolBuilder_Get undefinedCrdText (Some (namelessPool absent), []) =
       Return (Inl (Errorf ''nodepool 'name' cannot be empty'')) (Some (namelessPool absent), [])
   \<and> Error (Errorf ''nodepool 'name' cannot be empty'') = Some ''nodepool 'name' cannot be empty''"
    using T1
    by (simp add: namelessHost_def [symmetric] namelessPool_def [symmetric]
          namelessHost_simps(3) namelessPool_simps(3))
  have 2: "errorMsg (bootModelessHost absent) = ''Not acceptable 'bootMode' value''
   \<and> Definition (bootModelessHost absent) =
       Some ((host StateNone)\<lparr>Spec := (Spec (host StateNone))\<lparr>BootMode := ''''\<rparr>\<rparr>)
   \<and> Builder_Create (bootModelessHost absent, []) =
       Return (NilPtr, Some (Errorf ''Not acceptable 'bootMode' value''))
              (bootModelessHost absent, [])
   \<and> WaitUntilReady (5 * Second) (bootModelessHost absent, []) =
       Return (Some (Errorf ''Not acceptable 'bootMode' value'')) (bootModelessHost absent, [])
   \<and> Error (Errorf ''Not acceptable 'bootMode' value'') =
       Some ''Not acceptable 'bootMode' value''"
    using T2
    by (simp add: bootModelessHost_def [symmetric] bootModelessHost_simps(2) host_def)
  from h h2 1 2 show ?thesis by (intro conjI) simp_all
qed

text \<open>
  The statement of C5 itself fails for other operations and for a nil client: \<open>Get\<close> on
  a node-pool builder made with an empty name and a nil client returns the message about
  the client, which \<open>validate\<close> has put in place of the constructor's; \<open>Get\<close> on a
  bare-metal-host builder made with an empty name fetches from the cluster and returns
  what the cluster answers.
\<close>

theorem constructor_message_replaced:
  "errorMsg clientlessPool = ''nodepool 'name' cannot be empty''
   \<and> NodePoolBuilder_Get undefinedCrdText (Some clientlessPool, []) =
       Return (Inl (Errorf ''NodePool builder cannot have nil apiClient''))
              (Some (clientlessPool\<lparr>errorMsg := ''NodePool builder cannot have nil apiClient''\<rparr>),
               [])
   \<and> errorMsg (namelessHost absent) = ''BMH 'name' cannot be empty''
   \<and> Builder_Get (namelessHost absent, []) =
       Return (Inl notFound) (namelessHost absent, [GetCall '''' ''ns0''])"
proof -
  have a: "afterValidate undefinedCrdText clientlessPool =
             clientlessPool\<lparr>errorMsg := ''NodePool builder cannot have nil apiClient''\<rparr>"
    by (simp add: afterValidate_def clientlessPool_simps)
  have g: "NodePoolBuilder_Get undefinedCrdText (Some clientlessPool, []) =
       Return (Inl (Errorf ''NodePool builder cannot have nil apiClient''))
              (Some (clientlessPool\<lparr>errorMsg := ''NodePool builder cannot have nil apiClient''\<rparr>),
               [])"
    by (simp add: NodePoolBuilder_Get_error clientlessPool_simps(3) undefinedCrdText_def a)
  have f: "Builder_Get (namelessHost absent, []) =
       Return (Inl notFound) (namelessHost absent, [GetCall '''' ''ns0''])"
    by (simp add: Builder_Get_ok [OF namelessHost_simps(1,2)] absent_simps)
  from g f show ?thesis
    by (simp add: clientlessPool_simps(3) namelessHost_simps(3))
qed

section \<open>The error state is never cleared\<close>

lemma poll_keeps:
  assumes "\<And>s. f (final (cond s)) = f s"
  shows "f (final (poll n cond s)) = f s"
proof (induction n arbitrary: s)
  case 0
  show ?case by simp
next
  case (Suc n)
  show ?case
  proof (cases "cond s")
    case (Panic s1)
    with assms [of s] show ?thesis by simp
  next
    case (Return res s1)
    with assms [of s] have s1: "f s1 = f s" by simp
    obtain fin err where res: "res = (fin, err)" by (cases res)
    show ?thesis
      using Return res s1 Suc.IH [of s1]
      by (cases err; cases fin) simp_all
  qed
qed

lemma Builder_Get_keeps: "errorMsg (fst (final (Builder_Get s))) = errorMsg (fst s)"
  by (cases s) (simp add: Builder_Get_def split: option.splits)

lemma Builder_Exists_keeps: "errorMsg (fst (final (Builder_Exists s))) = errorMsg (fst s)"
  using Builder_Get_keeps [of s]
  by (cases "Builder_Get s") (auto simp: Builder_Exists_def split: prod.splits)

lemma Builder_Delete_keeps: "errorMsg (fst (final (Builder_Delete s))) = errorMsg (fst s)"
  using Builder_Exists_keeps [of s]
  by (cases "Builder_Exists s")
     (auto simp: Builder_Delete_def split: prod.splits bool.splits option.splits)

lemma WaitUntilDeleted_condition_keeps:
  "errorMsg (fst (final (WaitUntilDeleted_condition s))) = errorMsg (fst s)"
  using Builder_Get_keeps [of s]
  by (cases "Builder_Get s") (auto simp: WaitUntilDeleted_condition_def split: sum.splits)

lemma WaitUntilDeleted_keeps:
  "errorMsg (fst (final (WaitUntilDeleted t s))) = errorMsg (fst s)"
  unfolding WaitUntilDeleted_def Poll_def
  by (rule poll_keeps [where f = "\<lambda>s. errorMsg (fst s)"]) (rule WaitUntilDeleted_condition_keeps)

lemma DeleteAndWaitUntilDeleted_keeps:
  "errorMsg (fst (final (DeleteAndWaitUntilDeleted t s))) = errorMsg (fst s)"
proof (cases "Builder_Delete s")
  case (Panic s1)
  with Builder_Delete_keeps [of s] show ?thesis
    by (simp add: DeleteAndWaitUntilDeleted_def)
next
  case (Return res s1)
  with Builder_Delete_keeps [of s] have s1: "errorMsg (fst s1) = errorMsg (fst s)" by simp
  obtain p e where res: "res = (p, e)" by (cases res)
  show ?thesis
    using Return res s1 WaitUntilDeleted_keeps [of t s1]
    by (cases e; cases p; cases "WaitUntilDeleted t s1")
       (simp_all add: DeleteAndWaitUntilDeleted_def)
qed

lemma setRootDeviceHint_keeps_error:
  assumes "errorMsg b \<noteq> []" and "um \<noteq> []" and "rejected \<Longrightarrow> rm \<noteq> []"
  shows "errorMsg (final (setRootDeviceHint um rejected rm assign b)) \<noteq> []"
  using assms by (simp add: setRootDeviceHint_error)

lemma mutate_keeps_error:
  assumes "errorMsg (fst s) \<noteq> []" and "um \<noteq> []" and "rejected \<Longrightarrow> rm \<noteq> []"
  shows "errorMsg (fst (snd (mutate (setRootDeviceHint um rejected rm assign) s))) \<noteq> []"
  using assms by (cases s) (simp add: setRootDeviceHint_keeps_error)

lemma WithOptions_keeps_error:
  assumes "errorMsg (fst s) \<noteq> []" and "u ''bmh'' \<noteq> []"
  shows "errorMsg (fst (final (WithOptions u options s))) \<noteq> []"
  using assms by (cases s) (simp add: WithOptions_def Let_def)

lemma Builder_exec_keeps_error:
  assumes "errorMsg (fst s) \<noteq> []" and "u ''BareMetalHost'' \<noteq> []" and "u ''bmh'' \<noteq> []"
  shows "errorMsg (fst (snd (Builder_exec u op s))) \<noteq> []"
proof -
  obtain b log where s: "s = (b, log)" by (cases s)
  have b: "errorMsg b \<noteq> []" using assms(1) s by simp
  show ?thesis
  proof (cases op)
    case (OpWithOptions options)
    then show ?thesis
      using WithOptions_keeps_error [where u = u, OF assms(1,3)] by (simp add: effect_def)
  next
    case OpCreate
    then show ?thesis using b by (simp add: effect_def s Builder_Create_error)
  next
    case OpDelete
    then show ?thesis using assms(1) by (simp add: effect_def Builder_Delete_keeps)
  next
    case OpExists
    then show ?thesis using assms(1) by (simp add: effect_def Builder_Exists_keeps)
  next
    case OpGet
    then show ?thesis using assms(1) by (simp add: effect_def Builder_Get_keeps)
  next
    case (OpCreateAndWaitUntilProvisioned t)
    then show ?thesis
      using b by (simp add: effect_def s CreateAndWaitUntilProvisioned_error)
  next
    case (OpWaitUntilProvisioned t)
    then show ?thesis
      using b by (simp add: effect_def s WaitUntilProvisioned_def WaitUntilInStatus_error)
  next
    case (OpWaitUntilProvisioning t)
    then show ?thesis
      using b by (simp add: effect_def s WaitUntilProvisioning_def WaitUntilInStatus_error)
  next
    case (OpWaitUntilReady t)
    then show ?thesis
      using b by (simp add: effect_def s WaitUntilReady_def WaitUntilInStatus_error)
  next
    case (OpWaitUntilAvailable t)
    then show ?thesis
      using b by (simp add: effect_def s WaitUntilAvailable_def WaitUntilInStatus_error)
  next
    case (OpWaitUntilInStatus st t)
    then show ?thesis
      using b by (simp add: effect_def s WaitUntilInStatus_error)
  next
    case (OpDeleteAndWaitUntilDeleted t)
    then show ?thesis
      using assms(1) by (simp add: effect_def DeleteAndWaitUntilDeleted_keeps)
  next
    case (OpWaitUntilDeleted t)
    then show ?thesis using assms(1) by (simp add: effect_def WaitUntilDeleted_keeps)
  qed (simp_all add: WithRootDeviceDeviceName_def WithRootDeviceHTCL_def WithRootDeviceModel_def
        WithRootDeviceVendor_def WithRootDeviceSerialNumber_def
        WithRootDeviceMinSizeGigabytes_def WithRootDeviceWWN_def
        WithRootDeviceWWNWithExtension_def WithRootDeviceWWNVendorExtension_def
        WithRootDeviceRotationalDisk_def mutate_keeps_error [OF assms(1,2)])
qed

lemma Builder_run_keeps_error:
  assumes "u ''BareMetalHost'' \<noteq> []" and "u ''bmh'' \<noteq> []"
  shows "errorMsg (fst s) \<noteq> [] \<Longrightarrow> errorMsg (fst (Builder_run u ops s)) \<noteq> []"
proof (induction ops arbitrary: s)
  case Nil
  then show ?case by simp
next
  case (Cons op ops)
  obtain p s1 where e: "Builder_exec u op s = (p, s1)"
    by (cases "Builder_exec u op s")
  have s1: "errorMsg (fst s1) \<noteq> []"
    using Builder_exec_keeps_error [where u = u and op = op, OF Cons.prems assms] e by simp
  show ?case
    using e s1 Cons.IH [OF s1] by (cases p) simp_all
qed

lemma WithReplicas_error:
  "errorMsg b \<noteq> [] \<Longrightarrow> u ''NodePool'' \<noteq> [] \<Longrightarrow>
   WithReplicas u r (Some b) = Return Receiver (Some (afterValidate u b))"
  by (simp add: WithReplicas_def validate_error)

lemma NodePoolBuilder_exec_error:
  assumes "errorMsg b \<noteq> []" and "u ''NodePool'' \<noteq> []"
  shows "NodePoolBuilder_exec u op (Some b, log) = (False, (Some (afterValidate u b), log))"
  using assms
  by (cases op)
     (simp_all add: effect_def WithReplicas_error NodePoolBuilder_Get_error
        NodePoolBuilder_Exists_error WaitForReplicas_error validate_error)

lemma NodePoolBuilder_run_keeps_error:
  assumes "u ''NodePool'' \<noteq> []"
  shows "errorMsg b \<noteq> [] \<Longrightarrow>
         \<exists>b'. fst (NodePoolBuilder_run u ops (Some b, log)) = Some b' \<and> errorMsg b' \<noteq> []"
proof (induction ops arbitrary: b)
  case Nil
  then show ?case by simp
next
  case (Cons op ops)
  have "errorMsg (afterValidate u b) \<noteq> []"
    using Cons.prems assms by (rule afterValidate_error)
  from Cons.IH [OF this] show ?case
    by (simp add: NodePoolBuilder_exec_error [where u = u, OF Cons.prems assms])
qed

lemma WithOptions_loop_keeps:
  assumes "\<forall>opt s. Some opt \<in> set options \<longrightarrow> errorMsg (fst s) \<noteq> []
             \<longrightarrow> errorMsg (fst (final (opt s))) \<noteq> []"
    and "\<forall>opt s p m s'. Some opt \<in> set options \<longrightarrow> opt s = Return (p, Some m) s' \<longrightarrow> m \<noteq> []"
    and "errorMsg (fst s) \<noteq> []"
  shows "errorMsg (fst (final (WithOptions_loop options s))) \<noteq> []"
  using assms
proof (induction options arbitrary: s)
  case Nil
  then show ?case by simp
next
  case (Cons x options)
  have keep: "\<forall>opt s. Some opt \<in> set options \<longrightarrow> errorMsg (fst s) \<noteq> []
                \<longrightarrow> errorMsg (fst (final (opt s))) \<noteq> []"
    using Cons.prems(1) by simp
  have msg: "\<forall>opt s p m s'. Some opt \<in> set options \<longrightarrow> opt s = Return (p, Some m) s'
               \<longrightarrow> m \<noteq> []"
  proof (intro allI impI)
    fix opt s p m s'
    assume "Some opt \<in> set options" and "opt s = Return (p, Some m) s'"
    then show "m \<noteq> []"
      using Cons.prems(2) [rule_format, of opt s p m s'] by simp
  qed
  show ?case
  proof (cases x)
    case None
    then show ?thesis using Cons.IH [OF keep msg Cons.prems(3)] by simp
  next
    case (Some opt)
    have after: "errorMsg (fst (final (opt s))) \<noteq> []"
      using Cons.prems(1) [rule_format, of opt s] Cons.prems(3) Some by simp
    show ?thesis
    proof (cases "opt s")
      case (Panic s1)
      with after Some show ?thesis by simp
    next
      case (Return res s1)
      obtain p e where res: "res = (p, e)" by (cases res)
      obtain b1 log1 where s1: "s1 = (b1, log1)" by (cases s1)
      from after Return have set1: "errorMsg (fst s1) \<noteq> []" by simp
      show ?thesis
      proof (cases e)
        case None
        then show ?thesis
          using \<open>x = Some opt\<close> Return res Cons.IH [OF keep msg set1]
          by (cases p) simp_all
      next
        case (Some m)
        have "m \<noteq> []"
          using Cons.prems(2) [rule_format, of opt s p m s1] \<open>x = Some opt\<close> Return res Some
          by simp
        then show ?thesis
          using \<open>x = Some opt\<close> Return res Some set1 s1 by (cases p) simp_all
      qed
    qed
  qed
qed

lemma WithOptions_loop_after_option:
  assumes "\<forall>opt s. Some opt \<in> set options \<longrightarrow> errorMsg (fst s) \<noteq> []
             \<longrightarrow> errorMsg (fst (final (opt s))) \<noteq> []"
    and "\<forall>opt s p m s'. Some opt \<in> set (Some option # options)
           \<longrightarrow> opt s = Return (p, Some m) s' \<longrightarrow> m \<noteq> []"
    and "errorMsg (fst (final (option s))) \<noteq> []"
  shows "errorMsg (fst (final (WithOptions_loop (Some option # options) s))) \<noteq> []"
proof (cases "option s")
  case (Panic s1)
  with assms(3) show ?thesis by simp
next
  case (Return res s1)
  obtain p e where res: "res = (p, e)" by (cases res)
  obtain b1 log1 where s1: "s1 = (b1, log1)" by (cases s1)
  from assms(3) Return have set1: "errorMsg (fst s1) \<noteq> []" by simp
  have msg: "\<forall>opt s p m s'. Some opt \<in> set options \<longrightarrow> opt s = Return (p, Some m) s'
               \<longrightarrow> m \<noteq> []"
  proof (intro allI impI)
    fix opt s p m s'
    assume "Some opt \<in> set options" and "opt s = Return (p, Some m) s'"
    then show "m \<noteq> []"
      using assms(2) [rule_format, of opt s p m s'] by simp
  qed
  show ?thesis
  proof (cases e)
    case None
    then show ?thesis
      using Return res WithOptions_loop_keeps [OF assms(1) msg set1]
      by (cases p) simp_all
  next
    case (Some m)
    have "m \<noteq> []"
      using assms(2) [rule_format, of option s p m s1] Return res Some by simp
    then show ?thesis
      using Return res Some set1 s1 by (cases p) simp_all
  qed
qed

text \<open>
  C4, as amended. Take a builder whose error state is not empty and any sequence of
  calls on it: the mutators, \<open>WithOptions\<close> with any options, \<open>Create\<close>, \<open>Get\<close>,
  \<open>Exists\<close>, \<open>Delete\<close> and the waits for the bare-metal host; \<open>WithReplicas\<close>, \<open>Get\<close>,
  \<open>Exists\<close>, \<open>WaitForReplicas\<close> and \<open>validate\<close> for the node pool. After the sequence
  (or at the panic that ends it) the error state is still not empty. Inside a
  \<open>WithOptions\<close> call that runs its options, the error state that an option leaves
  non-empty is still non-empty when the call ends, provided that the options after it
  do not clear a set error state themselves and that no option fails with an error whose
  message is empty: \<open>WithOptions\<close> stores the message of a failing option's error
  whatever it is. The helper \<open>msg.UndefinedCrdObjectErrString\<close>, whose source is not
  available, is assumed to return a non-empty text for the three resource names it is
  called with.
\<close>

theorem error_state_stays_set:
  assumes "undefinedCrd ''BareMetalHost'' \<noteq> ''''" and "undefinedCrd ''bmh'' \<noteq> ''''"
    and "undefinedCrd ''NodePool'' \<noteq> ''''"
    and "errorMsg b \<noteq> ''''" and "errorMsg nb \<noteq> ''''"
    and "\<forall>opt s. Some opt \<in> set options \<longrightarrow> errorMsg (fst s) \<noteq> ''''
           \<longrightarrow> errorMsg (fst (final (opt s))) \<noteq> ''''"
    and "\<forall>opt s p m s'. Some opt \<in> set (Some option # options)
           \<longrightarrow> opt s = Return (p, Some m) s' \<longrightarrow> m \<noteq> ''''"
    and "errorMsg (fst (final (option s0))) \<noteq> ''''"
  shows "errorMsg (fst (Builder_run undefinedCrd ops (b, log))) \<noteq> ''''
       \<and> (\<exists>nb'. fst (NodePoolBuilder_run undefinedCrd nops (Some nb, nlog)) = Some nb'
                 \<and> errorMsg nb' \<noteq> '''')
       \<and> errorMsg (fst (final (WithOptions_loop (Some option # options) s0))) \<noteq> ''''"
proof -
  have "errorMsg (fst (final (WithOptions_loop (Some option # options) s0))) \<noteq> ''''"
    using assms(6,7,8) by (rule WithOptions_loop_after_option)
  then show ?thesis
    using Builder_run_keeps_error
            [where u = undefinedCrd and s = "(b, log)" and ops = ops, OF assms(1,2)]
          NodePoolBuilder_run_keeps_error
            [where u = undefinedCrd and ops = nops and log = nlog, OF assms(3,5)] assms(4)
    by simp
qed

lemma Builder_run_example:
  "Builder_run undefinedCrdText
     [OpWithRootDeviceVendor ''acme'', OpCreate, OpExists, OpDelete,
      OpWaitUntilDeleted (2 * Second)]
     (namelessHost absent, []) =
   ((namelessHost absent)\<lparr>Object := None\<rparr>,
    [GetCall '''' ''ns0'', GetCall '''' ''ns0'', GetCall '''' ''ns0''])"
  by (simp add: effect_def WithRootDeviceVendor_def setRootDeviceHint_error
        Builder_Create_error Builder_Exists_ok [where d = "(host StateNone)\<lparr>ObjectMeta := \<lparr>Name = [], Namespace = ''ns0''\<rparr>\<rparr>"]
        Builder_Delete_ok [where d = "(host StateNone)\<lparr>ObjectMeta := \<lparr>Name = [], Namespace = ''ns0''\<rparr>\<rparr>"]
        WaitUntilDeleted_condition_ok [where d = "(host StateNone)\<lparr>ObjectMeta := \<lparr>Name = [], Namespace = ''ns0''\<rparr>\<rparr>"]
        WaitUntilDeleted_def Poll_def ticks_seconds poll_numeral
        namelessHost_simps absent_simps notFound_def undefinedCrdText_def)

lemma NodePoolBuilder_run_example:
  "NodePoolBuilder_run undefinedCrdText
     [OpWithReplicas (Some 5), OpNodePoolExists, OpNodePoolGet, OpWaitForReplicas 5 (2 * Second)]
     (Some (namelessPool absent), []) =
   (Some (namelessPool absent), [])"
  by (simp add: effect_def WithReplicas_error NodePoolBuilder_Exists_error
        NodePoolBuilder_Get_error WaitForReplicas_error afterValidate_clean namelessPool_simps
        undefinedCrdText_def)

lemma modelOption_result:
  "modelOption m (b, log) =
     Return (Receiver, Some m)
       (b\<lparr>errorMsg := ''the baremetalhost rootDeviceHint model cannot be empty''\<rparr>, log)"
  by (simp add: modelOption_def WithRootDeviceModel_def setRootDeviceHint_def)

lemma WithOptions_loop_example:
  "WithOptions_loop [Some (modelOption ''boom''), Some (modelOption ''later'')]
     (hostBuilder absent, []) =
   Return Receiver ((hostBuilder absent)\<lparr>errorMsg := ''boom''\<rparr>, [])"
  by (simp add: modelOption_result)

theorem error_state_stays_set_witness:
  "undefinedCrdText ''BareMetalHost'' \<noteq> '''' \<and> undefinedCrdText ''bmh'' \<noteq> ''''
   \<and> undefinedCrdText ''NodePool'' \<noteq> ''''
   \<and> errorMsg (namelessHost absent) \<noteq> '''' \<and> errorMsg (namelessPool absent) \<noteq> ''''
   \<and> errorMsg (fst (final (modelOption ''boom'' (hostBuilder absent, [])))) \<noteq> ''''
   \<and> Builder_run undefinedCrdText
        [OpWithRootDeviceVendor ''acme'', OpCreate, OpExists, OpDelete,
         OpWaitUntilDeleted (2 * Second)]
        (namelessHost absent, []) =
      ((namelessHost absent)\<lparr>Object := None\<rparr>,
       [GetCall '''' ''ns0'', GetCall '''' ''ns0'', GetCall '''' ''ns0''])
   \<and> errorMsg ((namelessHost absent)\<lparr>Object := None\<rparr>) \<noteq> ''''
   \<and> NodePoolBuilder_run undefinedCrdText
        [OpWithReplicas (Some 5), OpNodePoolExists, OpNodePoolGet,
         OpWaitForReplicas 5 (2 * Second)]
        (Some (namelessPool absent), []) =
      (Some (namelessPool absent), [])
   \<and> WithOptions_loop [Some (modelOption ''boom''), Some (modelOption ''later'')]
        (hostBuilder absent, []) =
      Return Receiver ((hostBuilder absent)\<lparr>errorMsg := ''boom''\<rparr>, [])
   \<and> errorMsg ((hostBuilder absent)\<lparr>errorMsg := ''boom''\<rparr>) \<noteq> ''''"
proof -
  have h: "undefinedCrdText ''BareMetalHost'' \<noteq> ''''" "undefinedCrdText ''bmh'' \<noteq> ''''"
    "undefinedCrdText ''NodePool'' \<noteq> ''''"
    "errorMsg (namelessHost absent) \<noteq> ''''" "errorMsg (namelessPool absent) \<noteq> ''''"
    by (simp_all add: undefinedCrdText_def namelessHost_simps namelessPool_simps)
  have keep: "\<forall>opt s. Some opt \<in> set [Some (modelOption ''later'')] \<longrightarrow> errorMsg (fst s) \<noteq> ''''
                \<longrightarrow> errorMsg (fst (final (opt s))) \<noteq> ''''"
    by (auto simp: modelOption_result)
  have msg: "\<forall>opt s p m s'.
               Some opt \<in> set (Some (modelOption ''boom'') # [Some (modelOption ''later'')])
               \<longrightarrow> opt s = Return (p, Some m) s' \<longrightarrow> m \<noteq> ''''"
    by (auto simp: modelOption_result)
  have after: "errorMsg (fst (final (modelOption ''boom'' (hostBuilder absent, [])))) \<noteq> ''''"
    by (simp add: modelOption_result)
  note T = error_state_stays_set
      [where undefinedCrd = undefinedCrdText and b = "namelessHost absent"
         and nb = "namelessPool absent" and log = "[]" and nlog = "[]"
         and ops = "[OpWithRootDeviceVendor ''acme'', OpCreate, OpExists, OpDelete,
                     OpWaitUntilDeleted (2 * Second)]"
         and nops = "[OpWithReplicas (Some 5), OpNodePoolExists, OpNodePoolGet,
                      OpWaitForReplicas 5 (2 * Second)]"
         and option = "modelOption ''boom''" and options = "[Some (modelOption ''later'')]"
         and ?s0.0 = "(hostBuilder absent, [])",
       OF h keep msg after]
  have 1: "errorMsg ((namelessHost absent)\<lparr>Object := None\<rparr>) \<noteq> ''''"
    using T [THEN conjunct1] unfolding Builder_run_example by simp
  have 2: "errorMsg ((hostBuilder absent)\<lparr>errorMsg := ''boom''\<rparr>) \<noteq> ''''"
    using T [THEN conjunct2, THEN conjunct2] unfolding WithOptions_loop_example by simp
  from h after 1 2 Builder_run_example NodePoolBuilder_run_example WithOptions_loop_example
  show ?thesis
    by (intro conjI)
qed

text \<open>
  The statement of C4 itself fails. The option below calls \<open>WithRootDeviceModel("")\<close>,
  which sets the error state of the builder, and returns an error whose message is
  empty; \<open>WithOptions\<close> stores that message, and the error state is empty again.
\<close>

theorem WithOptions_clears_error_state:
  "errorMsg (hostBuilder absent) = ''''
   \<and> modelOption '''' (hostBuilder absent, []) =
       Return (Receiver, Some '''')
         ((hostBuilder absent)
            \<lparr>errorMsg := ''the baremetalhost rootDeviceHint model cannot be empty''\<rparr>, [])
   \<and> WithOptions undefinedCrdText [Some (modelOption '''')] (hostBuilder absent, []) =
       Return Receiver ((hostBuilder absent)\<lparr>errorMsg := ''''\<rparr>, [])"
  by (simp add: WithOptions_def modelOption_result hostBuilder_simps)

end
